theory Spec2Isabelle
  imports Main "HOL-Library.Sublist"
begin

section \<open>JavaScript values and the files on disk\<close>

text \<open>
  The value of the \<open>version\<close> property of a parsed SARIF file. \<open>JSON.parse\<close> returns
  \<open>any\<close>: the property may hold JSON \<open>null\<close>, may be absent (\<open>undefined\<close>) or hold a
  string. Strict equality (\<open>===\<close>) on these values is structural equality. Versions of
  other JSON kinds (numbers, booleans, arrays, objects) are not modelled.
\<close>

datatype jsvalue = JSNull | JSUndefined | JSString string

text \<open>
  A run is opaque to the upload pipeline except for its \<open>results\<close> array: \<open>results\<close> is
  \<open>None\<close> when the run carries no \<open>results\<close> array (reading \<open>run.results.length\<close> throws a
  TypeError there), and \<open>run_rest\<close> stands for the JSON text of every other property.
\<close>

record run =
  results :: "string list option"
  run_rest :: string

text \<open>
  What \<open>JSON.parse\<close> returned for one file: \<open>runs\<close> is \<open>None\<close> when the object has no
  iterable \<open>runs\<close> property (spreading it throws a TypeError).
\<close>

record sarif_object =
  version :: jsvalue
  runs :: "run list option"

text \<open>The local object \<open>combinedSarif\<close> of \<open>combineSarifFiles\<close>.\<close>

record combinedSarif =
  combined_version :: jsvalue
  combined_runs :: "run list"

datatype fsnode = File string | Directory "string list"

type_synonym filesystem = "string \<rightharpoonup> fsnode"

datatype error =
    EnvParamMustBeSet string
  | InputRequired string
  | DifferentSarifVersions jsvalue jsvalue
  | PathDoesNotExist string
  | NoSarifFilesFound string
  | InvalidSarif string "string list"
  | OnlyOneUploadPerJob
  | FsError string
  | JsonSyntaxError
  | TypeError
  | CollaboratorError
  | RequestError

section \<open>Collaborators and the world\<close>

text \<open>
  Modelled from the spec: the integration context \<open>util.Mode\<close>, whose declaration is not
  part of the sources at hand. The code only compares the mode with \<open>"actions"\<close>; the
  spec names the other mode \<open>standalone\<close>.
\<close>

datatype mode = Actions | Standalone

record RepositoryNwo =
  nwo_owner :: string
  nwo_repo :: string

datatype ActionName = Init | Autobuild | Finish | UploadSarif

datatype ActionStatus = Starting | Aborted | Success | Failure

record StatusReportBase =
  workflow_run_id :: "int option"
  workflow_name :: string
  job_name :: string
  analysis_key :: string
  matrix_vars :: "string option"
  commit_oid :: string
  ref :: string
  action_name :: ActionName
  action_oid :: string
  started_at :: string
  action_started_at :: string
  completed_at :: "string option"
  status :: ActionStatus
  cause :: "string option"
  exception :: "string option"

text \<open>
  A payload object handed to \<open>JSON.stringify\<close>: its properties in source order. A property
  whose value is \<open>undefined\<close> is left out by \<open>JSON.stringify\<close>, so it is left out here
  (\<open>property\<close> below). The wire payload is the JSON text of this object; the model keeps
  the object, whose property names and values are the ones of the text.
\<close>

datatype jfield = JString string | JNumber int | JStrings "string list"

type_synonym payload = "(string \<times> jfield) list"

definition property :: "string \<Rightarrow> jfield option \<Rightarrow> payload" where
  "property k v = (case v of None \<Rightarrow> [] | Some x \<Rightarrow> [(k, x)])"

text \<open>
  The calls made through the API clients, by route. \<open>owner\<close> and \<open>repo\<close> of a status
  request come from an array destructuring and may be \<open>undefined\<close> (\<open>None\<close>).
\<close>

datatype request =
    GetActionsRun "string option" "string option" "int option"
  | GetUrl string
  | PutAnalysis string string payload
  | PostSarifs string string payload
  | PutAnalysisStatus "string option" "string option" StatusReportBase

record response =
  resp_status :: nat
  data_workflow_url :: string
  data_path :: string

text \<open>What the code does to its surroundings, in order.\<close>

datatype event = SchemaValidation string | Request request

text \<open>
  JavaScript built-ins and the modules of the action that are consumed through their
  interface only (\<open>fingerprints\<close>, \<open>util\<close>, \<open>shared-environment\<close>, \<open>jsonschema\<close> with the
  SARIF schema, \<open>zlib\<close>, \<open>file-url\<close>, \<open>path\<close>). \<open>None\<close> is a thrown exception; for
  \<open>parseInt\<close> and \<open>Number\<close> it is NaN.
\<close>

record collab =
  JSON_parse :: "string \<Rightarrow> sarif_object option"
  JSON_stringify :: "combinedSarif \<Rightarrow> string"
  schemaErrors :: "sarif_object \<Rightarrow> string list"
  addFingerprints :: "string \<Rightarrow> string \<Rightarrow> string option"
  gzipSync :: "string \<Rightarrow> nat list"
  toBase64 :: "nat list \<Rightarrow> string"
  fileUrl :: "string \<Rightarrow> string"
  getToolNames :: "string \<Rightarrow> string list option"
  path_resolve :: "string \<Rightarrow> string \<Rightarrow> string"
  isLocalRun :: "(string \<rightharpoonup> string) \<Rightarrow> bool"
  GITHUB_DOTCOM_URL :: string
  CODEQL_WORKFLOW_STARTED_AT :: string
  toISOString :: "nat \<Rightarrow> string"
  parseInt :: "string \<Rightarrow> int option"
  Number :: "string \<Rightarrow> int option"
  trim :: "string \<Rightarrow> string"

text \<open>
  The state a job step runs in: \<open>process.env\<close>, the action inputs as \<open>core.getInput\<close>
  sees them (\<open>None\<close>: not supplied), the files, the standard output of
  \<open>git rev-parse HEAD\<close> (\<open>None\<close>: the tool runner throws), the remote end (\<open>None\<close>: the
  request throws), the clock read by \<open>new Date()\<close>, the message of \<open>core.setFailed\<close>,
  and the journal of validations and requests made so far. Logging is not modelled.
\<close>

record world =
  process_env :: "string \<rightharpoonup> string"
  action_inputs :: "string \<rightharpoonup> string"
  files :: filesystem
  git_head :: "string option"
  respond :: "request \<Rightarrow> response option"
  clock :: nat
  failed :: "string option"
  journal :: "event list"

type_synonym 'a action = "world \<Rightarrow> (error + 'a) \<times> world"

text \<open>Sequencing of two steps: an exception of the first step skips the second.\<close>

definition andThen :: "'a action \<Rightarrow> ('a \<Rightarrow> 'b action) \<Rightarrow> 'b action" where
  "andThen m f w = (case m w of (Inl e, w') \<Rightarrow> (Inl e, w') | (Inr a, w') \<Rightarrow> f a w')"

definition ret :: "'a \<Rightarrow> 'a action" where
  "ret a w = (Inr a, w)"

definition throw :: "error \<Rightarrow> 'a action" where
  "throw e w = (Inl e, w)"

text \<open>A computation that reads the world without changing it.\<close>

definition pure :: "(world \<Rightarrow> error + 'a) \<Rightarrow> 'a action" where
  "pure f w = (f w, w)"

definition exportVariable :: "string \<Rightarrow> string \<Rightarrow> unit action" where
  "exportVariable name val w = (Inr (), w\<lparr>process_env := (process_env w)(name \<mapsto> val)\<rparr>)"

definition setFailed :: "string \<Rightarrow> unit action" where
  "setFailed msg w = (Inr (), w\<lparr>failed := Some msg\<rparr>)"

text \<open>\<open>client.request\<close>: the request is journalled, then answered or thrown.\<close>

definition request :: "request \<Rightarrow> response action" where
  "request r w =
     (case respond w r of
        None \<Rightarrow> Inl RequestError
      | Some resp \<Rightarrow> Inr resp,
      w\<lparr>journal := journal w @ [Request r]\<rparr>)"

text \<open>Truthiness of a value of type \<open>string | undefined\<close>.\<close>

definition truthy :: "string option \<Rightarrow> bool" where
  "truthy v = (case v of None \<Rightarrow> False | Some s \<Rightarrow> s \<noteq> [])"

text \<open>\<open>v || ""\<close> for a value of type \<open>string | undefined\<close>.\<close>

definition orEmpty :: "string option \<Rightarrow> string" where
  "orEmpty v = (case v of None \<Rightarrow> [] | Some s \<Rightarrow> s)"

text \<open>\<open>s.split(sep)\<close> for a one-character separator.\<close>

fun split :: "char \<Rightarrow> string \<Rightarrow> string list" where
  "split sep [] = [[]]"
| "split sep (x # xs) =
     (if x = sep then [] # split sep xs
      else (case split sep xs of [] \<Rightarrow> [[x]] | p # ps \<Rightarrow> (x # p) # ps))"

text \<open>\<open>xs[i]\<close>: \<open>undefined\<close> out of range.\<close>

definition at :: "'a list \<Rightarrow> nat \<Rightarrow> 'a option" where
  "at xs i = (if i < length xs then Some (xs ! i) else None)"

text \<open>\<open>s.endsWith(suffix)\<close>.\<close>

definition endsWith :: "string \<Rightarrow> string \<Rightarrow> bool" where
  "endsWith s suf = (length suf \<le> length s \<and> drop (length s - length suf) s = suf)"

section \<open>actions-util.ts\<close>

definition getRequiredInput :: "string \<Rightarrow> string action" where
  "getRequiredInput name =
     pure (\<lambda>w. case action_inputs w name of None \<Rightarrow> Inl (InputRequired name) | Some v \<Rightarrow> Inr v)"

definition getRequiredEnvParam :: "string \<Rightarrow> string action" where
  "getRequiredEnvParam paramName =
     pure (\<lambda>w. case process_env w paramName of
                 None \<Rightarrow> Inl (EnvParamMustBeSet paramName)
               | Some v \<Rightarrow> if length v = 0 then Inl (EnvParamMustBeSet paramName) else Inr v)"

definition getCommitOid :: "collab \<Rightarrow> string action" where
  "getCommitOid c w =
     (case git_head w of
        Some out \<Rightarrow> ret (trim c out) w
      | None \<Rightarrow> getRequiredEnvParam ''GITHUB_SHA'' w)"

definition getWorkflowPath :: "collab \<Rightarrow> string action" where
  "getWorkflowPath c =
     andThen (getRequiredEnvParam ''GITHUB_REPOSITORY'') (\<lambda>nwo.
     let repo_nwo = split CHR ''/'' nwo;
         owner = at repo_nwo 0;
         repo = at repo_nwo 1
     in
     andThen (getRequiredEnvParam ''GITHUB_RUN_ID'') (\<lambda>run_id_str.
     let run_id = Number c run_id_str in
     andThen (request (GetActionsRun owner repo run_id)) (\<lambda>runsResponse.
     let workflowUrl = data_workflow_url runsResponse in
     andThen (request (GetUrl workflowUrl)) (\<lambda>workflowResponse.
     ret (data_path workflowResponse)))))"

definition getAnalysisKey :: "collab \<Rightarrow> string action" where
  "getAnalysisKey c w =
     (case process_env w ''CODEQL_ACTION_ANALYSIS_KEY'' of
        Some analysisKey \<Rightarrow> ret analysisKey w
      | None \<Rightarrow>
          andThen (getWorkflowPath c) (\<lambda>workflowPath.
          andThen (getRequiredEnvParam ''GITHUB_JOB'') (\<lambda>jobName.
          let analysisKey = workflowPath @ '':'' @ jobName in
          andThen (exportVariable ''CODEQL_ACTION_ANALYSIS_KEY'' analysisKey) (\<lambda>_.
          ret analysisKey))) w)"

text \<open>
  The regular expression \<open>/refs\/pull\/(\d+)\/merge/\<close> of \<open>getRef\<close>. \<open>matchPullRefHere\<close>
  matches it at the start of the text and returns the digits of group 1 and the text
  after the match; the digits must be followed by \<open>/\<close>, so group 1 is the whole run of
  digits. \<open>searchPullRef\<close> finds the leftmost match, as \<open>test\<close> and \<open>replace\<close> do, and
  also returns the text before it.
\<close>

definition isDigit :: "char \<Rightarrow> bool" where
  "isDigit ch = (ch \<in> set ''0123456789'')"

definition matchPullRefHere :: "string \<Rightarrow> (string \<times> string) option" where
  "matchPullRefHere s =
     (if take 10 s = ''refs/pull/'' then
        (let digits = takeWhile isDigit (drop 10 s);
             after = dropWhile isDigit (drop 10 s)
         in if digits \<noteq> [] \<and> take 6 after = ''/merge'' then Some (digits, drop 6 after)
            else None)
      else None)"

fun searchPullRef :: "string \<Rightarrow> (string \<times> string \<times> string) option" where
  "searchPullRef [] = None"
| "searchPullRef (x # xs) =
     (case matchPullRefHere (x # xs) of
        Some (digits, after) \<Rightarrow> Some ([], digits, after)
      | None \<Rightarrow>
          (case searchPullRef xs of
             None \<Rightarrow> None
           | Some (before, digits, after) \<Rightarrow> Some (x # before, digits, after)))"

text \<open>\<open>pull_ref_regex.test(ref)\<close>\<close>

definition pull_ref_test :: "string \<Rightarrow> bool" where
  "pull_ref_test r = (searchPullRef r \<noteq> None)"

text \<open>\<open>ref.replace(pull_ref_regex, "refs/pull/$1/head")\<close>\<close>

definition pull_ref_replace :: "string \<Rightarrow> string" where
  "pull_ref_replace r =
     (case searchPullRef r of
        None \<Rightarrow> r
      | Some (before, digits, after) \<Rightarrow> before @ ''refs/pull/'' @ digits @ ''/head'' @ after)"

definition getRef :: "collab \<Rightarrow> string action" where
  "getRef c =
     andThen (getRequiredEnvParam ''GITHUB_REF'') (\<lambda>r.
     andThen (getCommitOid c) (\<lambda>checkoutSha.
     if pull_ref_test r then
       andThen (getRequiredEnvParam ''GITHUB_SHA'') (\<lambda>sha.
       if checkoutSha \<noteq> sha then ret (pull_ref_replace r) else ret r)
     else ret r))"

text \<open>\<open>new Date()\<close>\<close>

definition newDate :: "nat action" where
  "newDate = pure (\<lambda>w. Inr (clock w))"

text \<open>
  Lines 242 to 249 of \<open>createStatusReportBase\<close>: the workflow start time is read from the
  environment, or set to the start time of this action and exported.
\<close>

definition getWorkflowStartedAt :: "collab \<Rightarrow> nat \<Rightarrow> string action" where
  "getWorkflowStartedAt c actionStartedAt w =
     (case process_env w (CODEQL_WORKFLOW_STARTED_AT c) of
        Some workflowStartedAt \<Rightarrow> ret workflowStartedAt w
      | None \<Rightarrow>
          andThen (exportVariable (CODEQL_WORKFLOW_STARTED_AT c) (toISOString c actionStartedAt))
            (\<lambda>_. ret (toISOString c actionStartedAt)) w)"

definition isTerminal :: "ActionStatus \<Rightarrow> bool" where
  "isTerminal st = (st = Success \<or> st = Failure \<or> st = Aborted)"

definition createStatusReportBase ::
  "collab \<Rightarrow> ActionName \<Rightarrow> ActionStatus \<Rightarrow> nat \<Rightarrow> string option \<Rightarrow> string option
     \<Rightarrow> StatusReportBase action" where
  "createStatusReportBase c actionName st actionStartedAt cause_arg exception_arg w0 =
     (let commitOid = orEmpty (process_env w0 ''GITHUB_SHA'') in
      andThen (getRef c) (\<lambda>r w1.
      (let workflowRunIDStr = process_env w1 ''GITHUB_RUN_ID'';
           workflowRunID =
             (if truthy workflowRunIDStr then parseInt c (the workflowRunIDStr) else Some (- 1));
           workflowName = orEmpty (process_env w1 ''GITHUB_WORKFLOW'');
           jobName = orEmpty (process_env w1 ''GITHUB_JOB'')
       in
       andThen (getAnalysisKey c) (\<lambda>analysis_key_val.
       andThen (getWorkflowStartedAt c actionStartedAt) (\<lambda>workflowStartedAt.
       let statusReport =
             \<lparr>workflow_run_id = workflowRunID,
              workflow_name = workflowName,
              job_name = jobName,
              analysis_key = analysis_key_val,
              matrix_vars = None,
              commit_oid = commitOid,
              ref = r,
              action_name = actionName,
              action_oid = ''unknown'',
              started_at = workflowStartedAt,
              action_started_at = toISOString c actionStartedAt,
              completed_at = None,
              status = st,
              cause = None,
              exception = None\<rparr>;
           statusReport =
             (if truthy cause_arg then statusReport\<lparr>cause := cause_arg\<rparr> else statusReport);
           statusReport =
             (if truthy exception_arg then statusReport\<lparr>exception := exception_arg\<rparr>
              else statusReport)
       in
       andThen (if isTerminal st then newDate else ret 0) (\<lambda>completed.
       let statusReport =
             (if isTerminal st then statusReport\<lparr>completed_at := Some (toISOString c completed)\<rparr>
              else statusReport)
       in
       andThen (getRequiredInput ''matrix'') (\<lambda>matrix.
       let statusReport =
             (if truthy (Some matrix) then statusReport\<lparr>matrix_vars := Some matrix\<rparr>
              else statusReport)
       in ret statusReport))))) w1) w0)"

text \<open>
  \<open>sendStatusReport\<close>; \<open>ignoreFailures\<close> is an optional parameter (\<open>None\<close>: not given).
  The report is of a type that extends \<open>StatusReportBase\<close>; the function treats it as a
  whole, and the model carries the base record.
\<close>

definition sendStatusReport :: "collab \<Rightarrow> StatusReportBase \<Rightarrow> bool option \<Rightarrow> bool action" where
  "sendStatusReport c statusReport ignoreFailures =
     andThen (getRequiredEnvParam ''GITHUB_SERVER_URL'') (\<lambda>serverUrl.
     if serverUrl \<noteq> GITHUB_DOTCOM_URL c then ret True
     else (\<lambda>w.
       (if isLocalRun c (process_env w) then ret True
        else
          andThen (getRequiredEnvParam ''GITHUB_REPOSITORY'') (\<lambda>nwo.
          let owner = at (split CHR ''/'' nwo) 0;
              repo = at (split CHR ''/'' nwo) 1
          in
          andThen (request (PutAnalysisStatus owner repo statusReport)) (\<lambda>statusResponse.
          if ignoreFailures \<noteq> Some True then
            (if resp_status statusResponse = 403 then
               andThen
                 (setFailed
                    ''The repo on which this action is running is not opted-in to CodeQL code scanning.'')
                 (\<lambda>_. ret False)
             else if resp_status statusResponse = 404 then
               andThen
                 (setFailed ''Not authorized to used the CodeQL code scanning feature on this repo.'')
                 (\<lambda>_. ret False)
             else ret True)
          else ret True))) w))"

section \<open>upload-lib.ts\<close>

text \<open>\<open>fs.readFileSync(path, "utf8")\<close>: throws unless the path is a file.\<close>

definition readFileSync :: "filesystem \<Rightarrow> string \<Rightarrow> error + string" where
  "readFileSync fs p = (case fs p of Some (File s) \<Rightarrow> Inr s | _ \<Rightarrow> Inl (FsError p))"

text \<open>\<open>JSON.parse(fs.readFileSync(sarifFile, "utf8"))\<close>\<close>

definition readSarif :: "collab \<Rightarrow> filesystem \<Rightarrow> string \<Rightarrow> error + sarif_object" where
  "readSarif c fs p =
     (case readFileSync fs p of
        Inl e \<Rightarrow> Inl e
      | Inr text \<Rightarrow>
          (case JSON_parse c text of None \<Rightarrow> Inl JsonSyntaxError | Some obj \<Rightarrow> Inr obj))"

text \<open>
  The \<open>for\<close> loop of \<open>combineSarifFiles\<close> (lines 24 to 36), with \<open>combinedSarif\<close> as
  the accumulator: the version check, then the push of the runs.
\<close>

fun combineLoop ::
  "collab \<Rightarrow> filesystem \<Rightarrow> combinedSarif \<Rightarrow> string list \<Rightarrow> error + combinedSarif" where
  "combineLoop c fs acc [] = Inr acc"
| "combineLoop c fs acc (sarifFile # rest) =
     (case readSarif c fs sarifFile of
        Inl e \<Rightarrow> Inl e
      | Inr sarifObject \<Rightarrow>
          (case (if combined_version acc = JSNull
                 then Inr (acc\<lparr>combined_version := version sarifObject\<rparr>)
                 else if combined_version acc \<noteq> version sarifObject
                 then Inl (DifferentSarifVersions (combined_version acc) (version sarifObject))
                 else Inr acc) of
             Inl e \<Rightarrow> Inl e
           | Inr acc' \<Rightarrow>
               (case runs sarifObject of
                  None \<Rightarrow> Inl TypeError
                | Some rs \<Rightarrow>
                    combineLoop c fs (acc'\<lparr>combined_runs := combined_runs acc' @ rs\<rparr>) rest)))"

definition combineSarifFiles :: "collab \<Rightarrow> filesystem \<Rightarrow> string list \<Rightarrow> error + string" where
  "combineSarifFiles c fs sarifFiles =
     (case combineLoop c fs \<lparr>combined_version = JSNull, combined_runs = []\<rparr> sarifFiles of
        Inl e \<Rightarrow> Inl e
      | Inr combined \<Rightarrow> Inr (JSON_stringify c combined))"

text \<open>
  \<open>uploadPayload\<close>. The credentials \<open>githubAuth\<close> and \<open>githubUrl\<close> and the logger only
  reach the API client and the log; they are left out of the model.
\<close>

definition uploadPayload :: "payload \<Rightarrow> RepositoryNwo \<Rightarrow> mode \<Rightarrow> unit action" where
  "uploadPayload payload_arg repositoryNwo mode_arg w =
     (let testMode = (process_env w ''TEST_MODE'' = Some ''true'') in
      if testMode then ret () w
      else
        andThen
          (request
             ((if mode_arg = Actions then PutAnalysis else PostSarifs)
                (nwo_owner repositoryNwo) (nwo_repo repositoryNwo) payload_arg))
          (\<lambda>response. ret ()) w)"

record UploadStatusReport =
  raw_upload_size_bytes :: nat
  zipped_upload_size_bytes :: nat
  num_results_in_sarif :: nat

text \<open>The loop of \<open>countResultsInSarif\<close>, with \<open>numResults\<close> as the accumulator.\<close>

fun countLoop :: "nat \<Rightarrow> run list \<Rightarrow> error + nat" where
  "countLoop numResults [] = Inr numResults"
| "countLoop numResults (r # rest) =
     (case results r of
        None \<Rightarrow> Inl TypeError
      | Some rs \<Rightarrow> countLoop (numResults + length rs) rest)"

definition countResultsInSarif :: "collab \<Rightarrow> string \<Rightarrow> error + nat" where
  "countResultsInSarif c sarif =
     (case JSON_parse c sarif of
        None \<Rightarrow> Inl JsonSyntaxError
      | Some obj \<Rightarrow> (case runs obj of None \<Rightarrow> Inl TypeError | Some rs \<Rightarrow> countLoop 0 rs))"

text \<open>
  \<open>validateSarifFileSchema\<close>: the error carries the path and the stack of every schema
  violation.
\<close>

definition validateSarifFileSchema :: "collab \<Rightarrow> string \<Rightarrow> unit action" where
  "validateSarifFileSchema c sarifFilePath =
     andThen (pure (\<lambda>w. readSarif c (files w) sarifFilePath)) (\<lambda>sarif.
     andThen
       (\<lambda>w. (Inr (schemaErrors c sarif),
              w\<lparr>journal := journal w @ [SchemaValidation sarifFilePath]\<rparr>))
       (\<lambda>errors.
     if errors \<noteq> [] then throw (InvalidSarif sarifFilePath errors) else ret ()))"

text \<open>The validation loop of \<open>uploadFiles\<close> (lines 204 to 206).\<close>

fun validateAll :: "collab \<Rightarrow> string list \<Rightarrow> unit action" where
  "validateAll c [] = ret ()"
| "validateAll c (file # rest) =
     andThen (validateSarifFileSchema c file) (\<lambda>_. validateAll c rest)"

text \<open>
  Lines 220 to 242 of \<open>uploadFiles\<close>: the payload object of each mode. \<open>startedAt\<close> is
  the value of \<open>process.env[sharedEnv.CODEQL_WORKFLOW_STARTED_AT]\<close>.
\<close>

definition buildPayload ::
  "mode \<Rightarrow> string \<Rightarrow> string \<Rightarrow> string option \<Rightarrow> string option \<Rightarrow> string \<Rightarrow> int option
     \<Rightarrow> string \<Rightarrow> string option \<Rightarrow> string option \<Rightarrow> string list \<Rightarrow> payload" where
  "buildPayload mode_arg commitOid ref_arg analysisKey analysisName zipped_sarif workflowRunID
       checkoutURI environment startedAt toolNames =
     (if mode_arg = Actions then
        property ''commit_oid'' (Some (JString commitOid)) @
        property ''ref'' (Some (JString ref_arg)) @
        property ''analysis_key'' (map_option JString analysisKey) @
        property ''analysis_name'' (map_option JString analysisName) @
        property ''sarif'' (Some (JString zipped_sarif)) @
        property ''workflow_run_id'' (map_option JNumber workflowRunID) @
        property ''checkout_uri'' (Some (JString checkoutURI)) @
        property ''environment'' (map_option JString environment) @
        property ''started_at'' (map_option JString startedAt) @
        property ''tool_names'' (Some (JStrings toolNames))
      else
        property ''commit_sha'' (Some (JString commitOid)) @
        property ''ref'' (Some (JString ref_arg)) @
        property ''sarif'' (Some (JString zipped_sarif)) @
        property ''checkout_uri'' (Some (JString checkoutURI)) @
        property ''tool_name'' (map_option JString (at toolNames 0)))"

text \<open>Lines 192 to 201 of \<open>uploadFiles\<close>: the check of the per-job sentinel.\<close>

definition checkSentinel :: "mode \<Rightarrow> unit action" where
  "checkSentinel mode_arg w =
     (if mode_arg = Actions then
        (let sentinelEnvVar = ''CODEQL_UPLOAD_SARIF'' in
         if truthy (process_env w sentinelEnvVar) then throw OnlyOneUploadPerJob w
         else exportVariable sentinelEnvVar sentinelEnvVar w)
      else ret () w)"

text \<open>\<open>fingerprints.addFingerprints\<close> and \<open>util.getToolNames\<close>, with their exceptions.\<close>

definition callAddFingerprints :: "collab \<Rightarrow> string \<Rightarrow> string \<Rightarrow> error + string" where
  "callAddFingerprints c sarifPayload checkoutPath =
     (case addFingerprints c sarifPayload checkoutPath of
        None \<Rightarrow> Inl CollaboratorError
      | Some s \<Rightarrow> Inr s)"

definition callGetToolNames :: "collab \<Rightarrow> string \<Rightarrow> error + string list" where
  "callGetToolNames c sarifPayload =
     (case getToolNames c sarifPayload of None \<Rightarrow> Inl CollaboratorError | Some ts \<Rightarrow> Inr ts)"

text \<open>
  \<open>uploadFiles\<close>, without the parameters \<open>githubAuth\<close>, \<open>githubUrl\<close> and \<open>logger\<close>, which
  it only passes on to \<open>uploadPayload\<close> and the log.
\<close>

definition uploadFiles ::
  "collab \<Rightarrow> string list \<Rightarrow> RepositoryNwo \<Rightarrow> string \<Rightarrow> string \<Rightarrow> string option \<Rightarrow> string option
     \<Rightarrow> int option \<Rightarrow> string \<Rightarrow> string option \<Rightarrow> mode \<Rightarrow> UploadStatusReport action" where
  "uploadFiles c sarifFiles repositoryNwo commitOid ref_arg analysisKey analysisName
       workflowRunID checkoutPath environment mode_arg =
     andThen (checkSentinel mode_arg) (\<lambda>_.
     andThen (validateAll c sarifFiles) (\<lambda>_.
     andThen (pure (\<lambda>w. combineSarifFiles c (files w) sarifFiles)) (\<lambda>combined.
     andThen (pure (\<lambda>_. callAddFingerprints c combined checkoutPath)) (\<lambda>sarifPayload.
     let zipped_sarif = toBase64 c (gzipSync c sarifPayload);
         checkoutURI = fileUrl c checkoutPath
     in
     andThen (pure (\<lambda>_. callGetToolNames c sarifPayload)) (\<lambda>toolNames.
     andThen
       (pure (\<lambda>w. Inr
          (buildPayload mode_arg commitOid ref_arg analysisKey analysisName zipped_sarif
             workflowRunID checkoutURI environment
             (process_env w (CODEQL_WORKFLOW_STARTED_AT c)) toolNames))) (\<lambda>payload_val.
     let rawUploadSizeBytes = length sarifPayload;
         zippedUploadSizeBytes = length zipped_sarif
     in
     andThen (pure (\<lambda>_. countResultsInSarif c sarifPayload)) (\<lambda>numResultInSarif.
     andThen (uploadPayload payload_val repositoryNwo mode_arg) (\<lambda>_.
     ret \<lparr>raw_upload_size_bytes = rawUploadSizeBytes,
          zipped_upload_size_bytes = zippedUploadSizeBytes,
          num_results_in_sarif = numResultInSarif\<rparr>))))))))"

text \<open>
  Lines 102 to 119 of \<open>upload\<close>: the files to upload for a path. \<open>path.resolve\<close> is the
  Node built-in.
\<close>

definition collectSarifFiles :: "collab \<Rightarrow> filesystem \<Rightarrow> string \<Rightarrow> error + string list" where
  "collectSarifFiles c fs sarifPath =
     (case fs sarifPath of
        None \<Rightarrow> Inl (PathDoesNotExist sarifPath)
      | Some (Directory entries) \<Rightarrow>
          (let paths =
                 map (\<lambda>f. path_resolve c sarifPath f)
                   (filter (\<lambda>f. endsWith f ''.sarif'') entries)
           in if length paths = 0 then Inl (NoSarifFilesFound sarifPath) else Inr paths)
      | Some (File content) \<Rightarrow> Inr [sarifPath])"

definition upload ::
  "collab \<Rightarrow> string \<Rightarrow> RepositoryNwo \<Rightarrow> string \<Rightarrow> string \<Rightarrow> string option \<Rightarrow> string option
     \<Rightarrow> int option \<Rightarrow> string \<Rightarrow> string option \<Rightarrow> mode \<Rightarrow> UploadStatusReport action" where
  "upload c sarifPath repositoryNwo commitOid ref_arg analysisKey analysisName
       workflowRunID checkoutPath environment mode_arg =
     andThen (pure (\<lambda>w. collectSarifFiles c (files w) sarifPath)) (\<lambda>sarifFiles.
     uploadFiles c sarifFiles repositoryNwo commitOid ref_arg analysisKey analysisName
       workflowRunID checkoutPath environment mode_arg)"

section \<open>A small job to run the functions on\<close>

text \<open>
  Two files in a directory \<open>out\<close>: \<open>a.sarif\<close> holds one run with three results,
  \<open>b.sarif\<close> one run without results, both of version 2.1.0 (two runs and three results
  in all, so that a count of runs differs from a count of results). Two
  more files sit outside the directory: one of version 2.0.0 and one whose version is
  JSON \<open>null\<close>. The collaborators are small stand-ins that can be evaluated.
\<close>

definition runA :: run where
  "runA = \<lparr>results = Some [''r1'', ''r2'', ''r3''], run_rest = ''toolA''\<rparr>"

definition runB :: run where
  "runB = \<lparr>results = Some [], run_rest = ''toolB''\<rparr>"

definition exampleParse :: "string \<Rightarrow> sarif_object option" where
  "exampleParse s =
     (if s = ''A'' then Some \<lparr>version = JSString ''2.1.0'', runs = Some [runA]\<rparr>
      else if s = ''B'' then Some \<lparr>version = JSString ''2.1.0'', runs = Some [runB]\<rparr>
      else if s = ''C'' then Some \<lparr>version = JSString ''2.0.0'', runs = Some [runB]\<rparr>
      else if s = ''N'' then Some \<lparr>version = JSNull, runs = Some [runA]\<rparr>
      else if s = ''toolAtoolB#'' then
        Some \<lparr>version = JSString ''2.1.0'', runs = Some [runA, runB]\<rparr>
      else None)"

definition exampleCollab :: collab where
  "exampleCollab =
     \<lparr>JSON_parse = exampleParse,
      JSON_stringify = (\<lambda>combined. concat (map run_rest (combined_runs combined))),
      schemaErrors =
        (\<lambda>d. if version d = JSString ''2.1.0'' then [] else [''instance.version'']),
      addFingerprints = (\<lambda>s checkoutPath. Some (s @ ''#'')),
      gzipSync = (\<lambda>s. map of_char (take 4 s)),
      toBase64 = (\<lambda>bytes. concat (map (\<lambda>b. ''=='') bytes)),
      fileUrl = (\<lambda>p. ''file://'' @ p),
      getToolNames = (\<lambda>s. Some [''CodeQL'', ''Other'']),
      path_resolve = (\<lambda>dir f. dir @ ''/'' @ f),
      isLocalRun = (\<lambda>env. env ''CODEQL_LOCAL_RUN'' = Some ''true''),
      GITHUB_DOTCOM_URL = ''https://github.com'',
      CODEQL_WORKFLOW_STARTED_AT = ''CODEQL_WORKFLOW_STARTED_AT'',
      toISOString = (\<lambda>t. if t = 0 then ''1970-01-01T00:00:00.000Z'' else ''later''),
      parseInt = (\<lambda>s. if s = ''42'' then Some 42 else None),
      Number = (\<lambda>s. if s = ''42'' then Some 42 else None),
      trim = filter (\<lambda>ch. ch \<noteq> CHR 0x0A)\<rparr>"

definition exampleFiles :: filesystem where
  "exampleFiles =
     [''out'' \<mapsto> Directory [''a.sarif'', ''notes.txt'', ''b.sarif''],
      ''out/a.sarif'' \<mapsto> File ''A'',
      ''out/b.sarif'' \<mapsto> File ''B'',
      ''old.sarif'' \<mapsto> File ''C'',
      ''null.json'' \<mapsto> File ''N'']"

definition exampleRespond :: "request \<Rightarrow> response option" where
  "exampleRespond r =
     (case r of
        PutAnalysisStatus owner repo report \<Rightarrow>
          Some \<lparr>resp_status = (if job_name report = ''gone'' then 404 else 500),
                data_workflow_url = [], data_path = []\<rparr>
      | _ \<Rightarrow> Some \<lparr>resp_status = 202, data_workflow_url = ''url'', data_path = ''wf.yml''\<rparr>)"

text \<open>
  A job on a branch push in which the analysis key is already cached, while run id, job
  name, workflow name and commit id are absent from the environment.
\<close>

definition exampleWorld :: world where
  "exampleWorld =
     \<lparr>process_env =
        [''GITHUB_REF'' \<mapsto> ''refs/heads/main'',
         ''CODEQL_ACTION_ANALYSIS_KEY'' \<mapsto> ''wf.yml:build'',
         ''GITHUB_SERVER_URL'' \<mapsto> ''https://github.com'',
         ''GITHUB_REPOSITORY'' \<mapsto> ''octo/repo''],
      action_inputs = [''matrix'' \<mapsto> ''null''],
      files = exampleFiles,
      git_head = Some ''0a1b2c'',
      respond = exampleRespond,
      clock = 7,
      failed = None,
      journal = []\<rparr>"

definition exampleNwo :: RepositoryNwo where
  "exampleNwo = \<lparr>nwo_owner = ''octo'', nwo_repo = ''repo''\<rparr>"

text \<open>A status report; the remote end of the example answers 404 to the job \<open>gone\<close>.\<close>

definition exampleReport :: "string \<Rightarrow> StatusReportBase" where
  "exampleReport job =
     \<lparr>workflow_run_id = Some 42,
      workflow_name = ''CodeQL'',
      job_name = job,
      analysis_key = ''wf.yml:build'',
      matrix_vars = None,
      commit_oid = ''0a1b2c'',
      ref = ''refs/heads/main'',
      action_name = Init,
      action_oid = ''unknown'',
      started_at = ''later'',
      action_started_at = ''later'',
      completed_at = None,
      status = Starting,
      cause = None,
      exception = None\<rparr>"

text \<open>The reports that \<open>createStatusReportBase\<close> composes in the example job.\<close>

definition exampleStartingReport :: StatusReportBase where
  "exampleStartingReport =
     \<lparr>workflow_run_id = Some (- 1),
      workflow_name = [],
      job_name = [],
      analysis_key = ''wf.yml:build'',
      matrix_vars = Some ''null'',
      commit_oid = [],
      ref = ''refs/heads/main'',
      action_name = UploadSarif,
      action_oid = ''unknown'',
      started_at = ''1970-01-01T00:00:00.000Z'',
      action_started_at = ''1970-01-01T00:00:00.000Z'',
      completed_at = None,
      status = Starting,
      cause = None,
      exception = None\<rparr>"

definition exampleFailureReport :: StatusReportBase where
  "exampleFailureReport =
     exampleStartingReport
       \<lparr>completed_at := Some ''later'', status := Failure, cause := Some ''boom''\<rparr>"

text \<open>The payload and the report of the example upload in standalone mode.\<close>

definition exampleStandalonePayload :: payload where
  "exampleStandalonePayload =
     [(''commit_sha'', JString ''0a1b2c''),
      (''ref'', JString ''refs/heads/main''),
      (''sarif'', JString ''========''),
      (''checkout_uri'', JString ''file:///w''),
      (''tool_name'', JString ''CodeQL'')]"

definition exampleUploadReport :: UploadStatusReport where
  "exampleUploadReport =
     \<lparr>raw_upload_size_bytes = 11, zipped_upload_size_bytes = 8, num_results_in_sarif = 3\<rparr>"

section \<open>Sequencing\<close>

lemma andThen_Inr_iff:
  "andThen m f w = (Inr r, w') \<longleftrightarrow> (\<exists>a w1. m w = (Inr a, w1) \<and> f a w1 = (Inr r, w'))"
  by (auto simp: andThen_def split: prod.splits sum.splits)

lemma andThen_fail: "m w = (Inl e, w1) \<Longrightarrow> andThen m f w = (Inl e, w1)"
  by (simp add: andThen_def)

section \<open>Reading the example files\<close>

lemma example_read_a:
  "readSarif exampleCollab exampleFiles ''out/a.sarif'' =
     Inr \<lparr>version = JSString ''2.1.0'', runs = Some [runA]\<rparr>"
  by (simp add: readSarif_def readFileSync_def exampleFiles_def exampleCollab_def exampleParse_def)

lemma example_read_b:
  "readSarif exampleCollab exampleFiles ''out/b.sarif'' =
     Inr \<lparr>version = JSString ''2.1.0'', runs = Some [runB]\<rparr>"
  by (simp add: readSarif_def readFileSync_def exampleFiles_def exampleCollab_def exampleParse_def)

lemma example_read_old:
  "readSarif exampleCollab exampleFiles ''old.sarif'' =
     Inr \<lparr>version = JSString ''2.0.0'', runs = Some [runB]\<rparr>"
  by (simp add: readSarif_def readFileSync_def exampleFiles_def exampleCollab_def exampleParse_def)

lemma example_read_null:
  "readSarif exampleCollab exampleFiles ''null.json'' =
     Inr \<lparr>version = JSNull, runs = Some [runA]\<rparr>"
  by (simp add: readSarif_def readFileSync_def exampleFiles_def exampleCollab_def exampleParse_def)

section \<open>Combining SARIF files\<close>

lemma combineLoop_same_version:
  "list_all2 (\<lambda>p rs. readSarif c fs p = Inr \<lparr>version = JSString v, runs = Some rs\<rparr>) sarifFiles runss
   \<Longrightarrow> combined_version acc = JSString v
   \<Longrightarrow> combineLoop c fs acc sarifFiles = Inr (acc\<lparr>combined_runs := combined_runs acc @ concat runss\<rparr>)"
proof (induction sarifFiles arbitrary: acc runss)
  case Nil
  then show ?case by simp
next
  case (Cons p ps)
  then obtain rs rest where r: "runss = rs # rest" by (auto simp: list_all2_Cons1)
  with Cons.prems have hd: "readSarif c fs p = Inr \<lparr>version = JSString v, runs = Some rs\<rparr>"
    and tl: "list_all2 (\<lambda>p rs. readSarif c fs p = Inr \<lparr>version = JSString v, runs = Some rs\<rparr>) ps rest"
    by simp_all
  have "combineLoop c fs (acc\<lparr>combined_runs := combined_runs acc @ rs\<rparr>) ps =
          Inr (acc\<lparr>combined_runs := combined_runs acc @ rs @ concat rest\<rparr>)"
    using Cons.IH[OF tl, of "acc\<lparr>combined_runs := combined_runs acc @ rs\<rparr>"] Cons.prems(2)
    by simp
  with hd r Cons.prems(2) show ?case by simp
qed

text \<open>
  C1. For every non-empty list of files that hold SARIF documents of one common version
  string \<open>v\<close>, each with an array of runs, \<open>combineSarifFiles\<close> returns the serialization
  of the document whose version is \<open>v\<close> and whose runs are the runs of the inputs,
  concatenated in input order.
\<close>

theorem combineSarifFiles_concat:
  assumes "sarifFiles \<noteq> []"
    and "list_all2 (\<lambda>p rs. readSarif c fs p = Inr \<lparr>version = JSString v, runs = Some rs\<rparr>)
           sarifFiles runss"
  shows "combineSarifFiles c fs sarifFiles =
           Inr (JSON_stringify c \<lparr>combined_version = JSString v, combined_runs = concat runss\<rparr>)"
proof -
  from assms obtain p ps rs rest where s: "sarifFiles = p # ps" "runss = rs # rest"
    by (cases sarifFiles) (auto simp: list_all2_Cons1)
  with assms(2) have hd: "readSarif c fs p = Inr \<lparr>version = JSString v, runs = Some rs\<rparr>"
    and tl: "list_all2 (\<lambda>p rs. readSarif c fs p = Inr \<lparr>version = JSString v, runs = Some rs\<rparr>) ps rest"
    by simp_all
  show ?thesis
    unfolding combineSarifFiles_def s
    using hd combineLoop_same_version[OF tl, of "\<lparr>combined_version = JSString v, combined_runs = rs\<rparr>"]
    by simp
qed

theorem combineSarifFiles_concat_witness:
  "[''out/a.sarif'', ''out/b.sarif''] \<noteq> [] \<and>
   combineSarifFiles exampleCollab exampleFiles [''out/a.sarif'', ''out/b.sarif''] =
     Inr (JSON_stringify exampleCollab
            \<lparr>combined_version = JSString ''2.1.0'', combined_runs = [runA, runB]\<rparr>)"
proof -
  have h: "list_all2
             (\<lambda>p rs. readSarif exampleCollab exampleFiles p =
                        Inr \<lparr>version = JSString ''2.1.0'', runs = Some rs\<rparr>)
             [''out/a.sarif'', ''out/b.sarif''] [[runA], [runB]]"
    by (simp add: example_read_a example_read_b)
  have ne: "[''out/a.sarif'', ''out/b.sarif''] \<noteq> []" by simp
  show ?thesis using combineSarifFiles_concat [OF ne h] by simp
qed




text \<open>
  Outside the data model: when the first file's version is JSON \<open>null\<close>, it coincides
  with the initial value of \<open>combinedSarif.version\<close>, and the next file's version is
  adopted without a comparison.
\<close>

lemma combineSarifFiles_null_version_example:
  "combineSarifFiles exampleCollab exampleFiles [''null.json'', ''old.sarif''] =
     Inr (JSON_stringify exampleCollab
            \<lparr>combined_version = JSString ''2.0.0'', combined_runs = [runA, runB]\<rparr>)"
  by (simp add: combineSarifFiles_def example_read_null example_read_old)

section \<open>Status reports\<close>

lemma getRequiredEnvParam_Inr_iff:
  "getRequiredEnvParam name w = (Inr v, w') \<longleftrightarrow> process_env w name = Some v \<and> v \<noteq> [] \<and> w' = w"
  by (auto simp: getRequiredEnvParam_def pure_def split: option.splits)

lemma getRequiredEnvParam_Inl_iff:
  "getRequiredEnvParam name w = (Inl e, w') \<longleftrightarrow>
     \<not> truthy (process_env w name) \<and> e = EnvParamMustBeSet name \<and> w' = w"
  by (auto simp: getRequiredEnvParam_def pure_def truthy_def split: option.splits)

lemma getCommitOid_world: "getCommitOid c w = (r, w') \<Longrightarrow> w' = w"
  by (auto simp: getCommitOid_def ret_def getRequiredEnvParam_def pure_def split: option.splits)

lemma getRef_world: "getRef c w = (r, w') \<Longrightarrow> w' = w"
  unfolding getRef_def
  by (auto simp: andThen_def ret_def getRequiredEnvParam_def pure_def
      split: prod.splits sum.splits if_splits option.splits dest!: getCommitOid_world)

lemma getRef_missing:
  "\<not> truthy (process_env w ''GITHUB_REF'') \<Longrightarrow>
     getRef c w = (Inl (EnvParamMustBeSet ''GITHUB_REF''), w)"
  unfolding getRef_def
  by (rule andThen_fail) (simp add: getRequiredEnvParam_Inl_iff)

lemma createStatusReportBase_Inr:
  assumes "createStatusReportBase c actionName st actionStartedAt cause_arg exception_arg w =
             (Inr report, w')"
  shows "\<exists>r key w2 started w3 matrix.
           getRef c w = (Inr r, w) \<and>
           getAnalysisKey c w = (Inr key, w2) \<and>
           getWorkflowStartedAt c actionStartedAt w2 = (Inr started, w3) \<and>
           getRequiredInput ''matrix'' w3 = (Inr matrix, w') \<and>
           workflow_run_id report =
             (if truthy (process_env w ''GITHUB_RUN_ID'')
              then parseInt c (the (process_env w ''GITHUB_RUN_ID'')) else Some (- 1)) \<and>
           workflow_name report = orEmpty (process_env w ''GITHUB_WORKFLOW'') \<and>
           job_name report = orEmpty (process_env w ''GITHUB_JOB'') \<and>
           commit_oid report = orEmpty (process_env w ''GITHUB_SHA'') \<and>
           analysis_key report = key \<and> ref report = r \<and> started_at report = started \<and>
           status report = st \<and>
           completed_at report = (if isTerminal st then Some (toISOString c (clock w3)) else None)"
proof -
  note sel = if_distrib[where f=workflow_run_id] if_distrib[where f=workflow_name]
    if_distrib[where f=job_name] if_distrib[where f=commit_oid] if_distrib[where f=analysis_key]
    if_distrib[where f=ref] if_distrib[where f=started_at] if_distrib[where f=status]
    if_distrib[where f=completed_at]
  from assms obtain r w1 key w2 started w3 completed w4 matrix w5 where
    r: "getRef c w = (Inr r, w1)" and
    k: "getAnalysisKey c w1 = (Inr key, w2)" and
    s: "getWorkflowStartedAt c actionStartedAt w2 = (Inr started, w3)" and
    d: "(if isTerminal st then newDate else ret 0) w3 = (Inr completed, w4)" and
    m: "getRequiredInput ''matrix'' w4 = (Inr matrix, w5)" and
    rep: "ret (let statusReport =
             \<lparr>workflow_run_id =
                (if truthy (process_env w1 ''GITHUB_RUN_ID'')
                 then parseInt c (the (process_env w1 ''GITHUB_RUN_ID'')) else Some (- 1)),
              workflow_name = orEmpty (process_env w1 ''GITHUB_WORKFLOW''),
              job_name = orEmpty (process_env w1 ''GITHUB_JOB''),
              analysis_key = key,
              matrix_vars = None,
              commit_oid = orEmpty (process_env w ''GITHUB_SHA''),
              ref = r,
              action_name = actionName,
              action_oid = ''unknown'',
              started_at = started,
              action_started_at = toISOString c actionStartedAt,
              completed_at = None,
              status = st,
              cause = None,
              exception = None\<rparr>;
           statusReport =
             (if truthy cause_arg then statusReport\<lparr>cause := cause_arg\<rparr> else statusReport);
           statusReport =
             (if truthy exception_arg then statusReport\<lparr>exception := exception_arg\<rparr>
              else statusReport);
           statusReport =
             (if isTerminal st then statusReport\<lparr>completed_at := Some (toISOString c completed)\<rparr>
              else statusReport)
          in (if truthy (Some matrix) then statusReport\<lparr>matrix_vars := Some matrix\<rparr>
              else statusReport)) w5 = (Inr report, w')"
    unfolding createStatusReportBase_def Let_def andThen_Inr_iff by blast
  from r have w1: "w1 = w" by (rule getRef_world)
  from d have w4: "w4 = w3" and c: "isTerminal st \<Longrightarrow> completed = clock w3"
    by (auto simp: newDate_def pure_def ret_def split: if_splits)
  from rep have w5: "w5 = w'" and report: "report = (let statusReport =
             \<lparr>workflow_run_id =
                (if truthy (process_env w1 ''GITHUB_RUN_ID'')
                 then parseInt c (the (process_env w1 ''GITHUB_RUN_ID'')) else Some (- 1)),
              workflow_name = orEmpty (process_env w1 ''GITHUB_WORKFLOW''),
              job_name = orEmpty (process_env w1 ''GITHUB_JOB''),
              analysis_key = key,
              matrix_vars = None,
              commit_oid = orEmpty (process_env w ''GITHUB_SHA''),
              ref = r,
              action_name = actionName,
              action_oid = ''unknown'',
              started_at = started,
              action_started_at = toISOString c actionStartedAt,
              completed_at = None,
              status = st,
              cause = None,
              exception = None\<rparr>;
           statusReport =
             (if truthy cause_arg then statusReport\<lparr>cause := cause_arg\<rparr> else statusReport);
           statusReport =
             (if truthy exception_arg then statusReport\<lparr>exception := exception_arg\<rparr>
              else statusReport);
           statusReport =
             (if isTerminal st then statusReport\<lparr>completed_at := Some (toISOString c completed)\<rparr>
              else statusReport)
          in (if truthy (Some matrix) then statusReport\<lparr>matrix_vars := Some matrix\<rparr>
              else statusReport))"
    by (simp_all add: ret_def)
  have fields: "workflow_run_id report =
             (if truthy (process_env w ''GITHUB_RUN_ID'')
              then parseInt c (the (process_env w ''GITHUB_RUN_ID'')) else Some (- 1))"
    "workflow_name report = orEmpty (process_env w ''GITHUB_WORKFLOW'')"
    "job_name report = orEmpty (process_env w ''GITHUB_JOB'')"
    "commit_oid report = orEmpty (process_env w ''GITHUB_SHA'')"
    "analysis_key report = key" "ref report = r" "started_at report = started"
    "status report = st"
    "completed_at report = (if isTerminal st then Some (toISOString c (clock w3)) else None)"
    unfolding report Let_def using w1 c by (simp_all add: sel)
  from r k s m w1 w4 w5 fields show ?thesis by blast
qed


lemma example_report_starting:
  "fst (createStatusReportBase exampleCollab UploadSarif Starting 0 None None exampleWorld) =
     Inr exampleStartingReport"
  by (simp add: createStatusReportBase_def getRef_def getCommitOid_def getAnalysisKey_def
      getWorkflowStartedAt_def getRequiredEnvParam_def getRequiredInput_def newDate_def
      exportVariable_def andThen_def ret_def pure_def truthy_def orEmpty_def isTerminal_def
      pull_ref_test_def matchPullRefHere_def exampleWorld_def exampleCollab_def Let_def
      exampleStartingReport_def exampleFailureReport_def)

lemma example_report_failure:
  "fst (createStatusReportBase exampleCollab UploadSarif Failure 0 (Some ''boom'') None
          exampleWorld) = Inr exampleFailureReport"
  by (simp add: createStatusReportBase_def getRef_def getCommitOid_def getAnalysisKey_def
      getWorkflowStartedAt_def getRequiredEnvParam_def getRequiredInput_def newDate_def
      exportVariable_def andThen_def ret_def pure_def truthy_def orEmpty_def isTerminal_def
      pull_ref_test_def matchPullRefHere_def exampleWorld_def exampleCollab_def Let_def
      exampleStartingReport_def exampleFailureReport_def)

text \<open>
  C8. In every status report that \<open>createStatusReportBase\<close> returns, \<open>completed_at\<close> is
  set if and only if the status is success, failure or aborted; for the status starting
  it is not set.
\<close>

theorem createStatusReportBase_completed_at:
  assumes "createStatusReportBase c actionName st actionStartedAt cause_arg exception_arg w =
             (Inr report, w')"
  shows "(completed_at report \<noteq> None \<longleftrightarrow> st = Success \<or> st = Failure \<or> st = Aborted) \<and>
         (st = Starting \<longrightarrow> completed_at report = None)"
  using createStatusReportBase_Inr [OF assms] by (cases st) (auto simp: isTerminal_def)

theorem createStatusReportBase_completed_at_witness:
  "fst (createStatusReportBase exampleCollab UploadSarif Failure 0 (Some ''boom'') None
          exampleWorld) = Inr exampleFailureReport \<and>
   completed_at exampleFailureReport \<noteq> None \<and>
   fst (createStatusReportBase exampleCollab UploadSarif Starting 0 None None exampleWorld) =
     Inr exampleStartingReport \<and>
   completed_at exampleStartingReport = None"
proof -
  let ?f = "createStatusReportBase exampleCollab UploadSarif Failure 0 (Some ''boom'') None
              exampleWorld"
  let ?s = "createStatusReportBase exampleCollab UploadSarif Starting 0 None None exampleWorld"
  have f: "?f = (Inr exampleFailureReport, snd ?f)"
    using example_report_failure by (metis prod.collapse)
  have s: "?s = (Inr exampleStartingReport, snd ?s)"
    using example_report_starting by (metis prod.collapse)
  show ?thesis
    using createStatusReportBase_completed_at [OF f] createStatusReportBase_completed_at [OF s]
      example_report_failure example_report_starting
    by simp
qed

lemma request_frame:
  "request rq w = (r, w') \<Longrightarrow>
     process_env w' = process_env w \<and> action_inputs w' = action_inputs w \<and>
     files w' = files w \<and> git_head w' = git_head w"
  by (auto simp: request_def)

lemma getWorkflowPath_Inr:
  assumes "getWorkflowPath c w = (Inr p, w')"
  shows "truthy (process_env w ''GITHUB_REPOSITORY'') \<and> truthy (process_env w ''GITHUB_RUN_ID'') \<and>
         process_env w' = process_env w \<and> action_inputs w' = action_inputs w"
proof -
  from assms obtain nwo rid rq1 r1 w1 rq2 r2 where
    "process_env w ''GITHUB_REPOSITORY'' = Some nwo" "nwo \<noteq> []"
    "process_env w ''GITHUB_RUN_ID'' = Some rid" "rid \<noteq> []"
    "request rq1 w = (Inr r1, w1)" "request rq2 w1 = (Inr r2, w')"
    unfolding getWorkflowPath_def Let_def
    by (auto simp: andThen_Inr_iff getRequiredEnvParam_Inr_iff ret_def)
  then show ?thesis by (auto simp: truthy_def dest!: request_frame)
qed

lemma getAnalysisKey_Inr:
  assumes "getAnalysisKey c w = (Inr key, w')"
  shows "action_inputs w' = action_inputs w \<and>
         (process_env w ''CODEQL_ACTION_ANALYSIS_KEY'' = None \<longrightarrow>
            truthy (process_env w ''GITHUB_REPOSITORY'') \<and>
            truthy (process_env w ''GITHUB_RUN_ID'') \<and>
            truthy (process_env w ''GITHUB_JOB''))"
proof (cases "process_env w ''CODEQL_ACTION_ANALYSIS_KEY''")
  case (Some k)
  with assms show ?thesis by (simp add: getAnalysisKey_def ret_def)
next
  case None
  with assms obtain p w1 job where
    p: "getWorkflowPath c w = (Inr p, w1)" and
    j: "process_env w1 ''GITHUB_JOB'' = Some job" "job \<noteq> []" and
    e: "exportVariable ''CODEQL_ACTION_ANALYSIS_KEY'' (p @ '':'' @ job) w1 = (Inr (), w')"
    unfolding getAnalysisKey_def Let_def
    by (auto simp: andThen_Inr_iff getRequiredEnvParam_Inr_iff ret_def)
  from e have "action_inputs w' = action_inputs w1" by (auto simp: exportVariable_def)
  with getWorkflowPath_Inr [OF p] j show ?thesis by (simp add: truthy_def)
qed

lemma getWorkflowStartedAt_frame:
  "getWorkflowStartedAt c t w = (r, w') \<Longrightarrow> action_inputs w' = action_inputs w"
  by (auto simp: getWorkflowStartedAt_def ret_def andThen_def exportVariable_def
      split: option.splits)

lemma getRequiredInput_Inr:
  "getRequiredInput name w = (Inr v, w') \<Longrightarrow> action_inputs w name = Some v"
  by (auto simp: getRequiredInput_def pure_def split: option.splits)

lemma getCommitOid_Inr:
  "getCommitOid c w = (Inr oid, w') \<Longrightarrow> git_head w \<noteq> None \<or> truthy (process_env w ''GITHUB_SHA'')"
  by (auto simp: getCommitOid_def getRequiredEnvParam_Inr_iff truthy_def split: option.splits)

lemma getRef_Inr:
  assumes "getRef c w = (Inr r, w')"
  shows "truthy (process_env w ''GITHUB_REF'') \<and>
         (git_head w \<noteq> None \<or> truthy (process_env w ''GITHUB_SHA'')) \<and>
         (pull_ref_test (the (process_env w ''GITHUB_REF'')) \<longrightarrow>
            truthy (process_env w ''GITHUB_SHA''))"
proof -
  from assms obtain r0 oid w1 where
    r0: "process_env w ''GITHUB_REF'' = Some r0" "r0 \<noteq> []" and
    oid: "getCommitOid c w = (Inr oid, w1)" and
    rest: "(if pull_ref_test r0 then
              andThen (getRequiredEnvParam ''GITHUB_SHA'') (\<lambda>sha.
                if oid \<noteq> sha then ret (pull_ref_replace r0) else ret r0)
            else ret r0) w1 = (Inr r, w')"
    unfolding getRef_def by (auto simp: andThen_Inr_iff getRequiredEnvParam_Inr_iff)
  from oid have w1: "w1 = w" by (rule getCommitOid_world)
  from rest w1 have "pull_ref_test r0 \<longrightarrow> truthy (process_env w ''GITHUB_SHA'')"
    by (auto simp: andThen_Inr_iff getRequiredEnvParam_Inr_iff truthy_def split: if_splits)
  with r0 getCommitOid_Inr [OF oid] show ?thesis by (simp add: truthy_def)
qed

lemma getRef_succeeds:
  assumes "truthy (process_env w ''GITHUB_REF'')"
    and "git_head w \<noteq> None \<or> truthy (process_env w ''GITHUB_SHA'')"
    and "pull_ref_test (the (process_env w ''GITHUB_REF'')) \<longrightarrow> truthy (process_env w ''GITHUB_SHA'')"
  shows "\<exists>r. getRef c w = (Inr r, w)"
proof -
  from assms(1) obtain r0 where r0: "process_env w ''GITHUB_REF'' = Some r0" "r0 \<noteq> []"
    by (auto simp: truthy_def split: option.splits)
  from assms(2) have "\<exists>oid. getCommitOid c w = (Inr oid, w)"
    by (cases "git_head w")
      (auto simp: getCommitOid_def ret_def getRequiredEnvParam_def pure_def truthy_def
        split: option.splits)
  then obtain oid where oid: "getCommitOid c w = (Inr oid, w)" by blast
  show ?thesis
  proof (cases "pull_ref_test r0")
    case False
    with r0 oid show ?thesis
      by (simp add: getRef_def andThen_def getRequiredEnvParam_def pure_def ret_def)
  next
    case True
    with assms(3) r0 obtain sha where "process_env w ''GITHUB_SHA'' = Some sha" "sha \<noteq> []"
      by (auto simp: truthy_def split: option.splits)
    with True r0 oid show ?thesis
      by (simp add: getRef_def andThen_def getRequiredEnvParam_def pure_def ret_def)
  qed
qed

lemma getAnalysisKey_succeeds:
  assumes "process_env w ''CODEQL_ACTION_ANALYSIS_KEY'' \<noteq> None \<or>
           (truthy (process_env w ''GITHUB_REPOSITORY'') \<and>
            truthy (process_env w ''GITHUB_RUN_ID'') \<and>
            truthy (process_env w ''GITHUB_JOB'') \<and>
            (\<exists>runsResponse.
               respond w
                 (GetActionsRun (at (split CHR ''/'' (the (process_env w ''GITHUB_REPOSITORY''))) 0)
                    (at (split CHR ''/'' (the (process_env w ''GITHUB_REPOSITORY''))) 1)
                    (Number c (the (process_env w ''GITHUB_RUN_ID'')))) = Some runsResponse \<and>
               respond w (GetUrl (data_workflow_url runsResponse)) \<noteq> None))"
  shows "\<exists>key w2. getAnalysisKey c w = (Inr key, w2) \<and> action_inputs w2 = action_inputs w \<and>
           clock w2 = clock w"
proof (cases "process_env w ''CODEQL_ACTION_ANALYSIS_KEY''")
  case (Some k)
  then show ?thesis by (simp add: getAnalysisKey_def ret_def)
next
  case None
  with assms obtain nwo rid job r1 r2 where
    e: "process_env w ''GITHUB_REPOSITORY'' = Some nwo" "nwo \<noteq> []"
       "process_env w ''GITHUB_RUN_ID'' = Some rid" "rid \<noteq> []"
       "process_env w ''GITHUB_JOB'' = Some job" "job \<noteq> []" and
    n: "respond w (GetActionsRun (at (split CHR ''/'' nwo) 0) (at (split CHR ''/'' nwo) 1)
          (Number c rid)) = Some r1"
       "respond w (GetUrl (data_workflow_url r1)) = Some r2"
    by (auto simp: truthy_def split: option.splits)
  with None show ?thesis
    by (simp add: getAnalysisKey_def getWorkflowPath_def andThen_def getRequiredEnvParam_def
        pure_def ret_def request_def exportVariable_def Let_def)
qed

lemma getWorkflowStartedAt_succeeds:
  "\<exists>started w3. getWorkflowStartedAt c t w = (Inr started, w3) \<and>
      action_inputs w3 = action_inputs w"
  by (auto simp: getWorkflowStartedAt_def ret_def andThen_def exportVariable_def
      split: option.splits)

lemma createStatusReportBase_succeeds:
  assumes "truthy (process_env w ''GITHUB_REF'')"
    and "git_head w \<noteq> None \<or> truthy (process_env w ''GITHUB_SHA'')"
    and "pull_ref_test (the (process_env w ''GITHUB_REF'')) \<longrightarrow> truthy (process_env w ''GITHUB_SHA'')"
    and "action_inputs w ''matrix'' \<noteq> None"
    and "process_env w ''CODEQL_ACTION_ANALYSIS_KEY'' \<noteq> None \<or>
           (truthy (process_env w ''GITHUB_REPOSITORY'') \<and>
            truthy (process_env w ''GITHUB_RUN_ID'') \<and>
            truthy (process_env w ''GITHUB_JOB'') \<and>
            (\<exists>runsResponse.
               respond w
                 (GetActionsRun (at (split CHR ''/'' (the (process_env w ''GITHUB_REPOSITORY''))) 0)
                    (at (split CHR ''/'' (the (process_env w ''GITHUB_REPOSITORY''))) 1)
                    (Number c (the (process_env w ''GITHUB_RUN_ID'')))) = Some runsResponse \<and>
               respond w (GetUrl (data_workflow_url runsResponse)) \<noteq> None))"
  shows "\<exists>report. fst (createStatusReportBase c actionName st actionStartedAt cause_arg
                          exception_arg w) = Inr report"
proof -
  from getRef_succeeds [OF assms(1-3)] obtain r where r: "getRef c w = (Inr r, w)" by blast
  from getAnalysisKey_succeeds [OF assms(5)] obtain key w2 where
    k: "getAnalysisKey c w = (Inr key, w2)" and w2: "action_inputs w2 = action_inputs w"
    by blast
  from getWorkflowStartedAt_succeeds [of c actionStartedAt w2] obtain started w3 where
    s: "getWorkflowStartedAt c actionStartedAt w2 = (Inr started, w3)"
    and w3: "action_inputs w3 = action_inputs w2"
    by blast
  from assms(4) w2 w3 obtain matrix where m: "action_inputs w3 ''matrix'' = Some matrix"
    by auto
  show ?thesis
    unfolding createStatusReportBase_def Let_def
    by (simp add: andThen_def r k s newDate_def pure_def ret_def getRequiredInput_def m)
qed

text \<open>
  C6, as the code has it. Composing a status report fails when \<open>GITHUB_REF\<close> is absent
  or empty; when the \<open>matrix\<close> input is not supplied; when no analysis key is cached in
  the environment and \<open>GITHUB_REPOSITORY\<close>, \<open>GITHUB_RUN_ID\<close> or \<open>GITHUB_JOB\<close> is absent or
  empty; and when \<open>GITHUB_SHA\<close> is absent or empty while git gives no commit or the ref
  is a pull-request merge ref. Apart from these cases an absent run id, workflow name,
  job name or commit id is no error: when \<open>GITHUB_REF\<close> and the \<open>matrix\<close> input are
  there, git gives a commit or \<open>GITHUB_SHA\<close> is set (and \<open>GITHUB_SHA\<close> is set for a
  pull-request merge ref), and the analysis key is cached (or \<open>GITHUB_REPOSITORY\<close>,
  \<open>GITHUB_RUN_ID\<close> and \<open>GITHUB_JOB\<close> are set and the two requests for the workflow path
  are answered), a report is returned; and a report that is returned carries \<open>-1\<close> for an
  absent run id and the empty string for an absent workflow name, job name or commit id.
\<close>

theorem createStatusReportBase_required_values:
  "(let res = createStatusReportBase c actionName st actionStartedAt cause_arg exception_arg w in
    (\<not> truthy (process_env w ''GITHUB_REF'') \<longrightarrow>
       res = (Inl (EnvParamMustBeSet ''GITHUB_REF''), w)) \<and>
    (action_inputs w ''matrix'' = None \<longrightarrow> (\<exists>e. fst res = Inl e)) \<and>
    (process_env w ''CODEQL_ACTION_ANALYSIS_KEY'' = None \<and>
       (\<not> truthy (process_env w ''GITHUB_REPOSITORY'') \<or>
        \<not> truthy (process_env w ''GITHUB_RUN_ID'') \<or>
        \<not> truthy (process_env w ''GITHUB_JOB'')) \<longrightarrow> (\<exists>e. fst res = Inl e)) \<and>
    (\<not> truthy (process_env w ''GITHUB_SHA'') \<and>
       (git_head w = None \<or> pull_ref_test (the (process_env w ''GITHUB_REF''))) \<longrightarrow>
       (\<exists>e. fst res = Inl e)) \<and>
    (truthy (process_env w ''GITHUB_REF'') \<and>
       (git_head w \<noteq> None \<or> truthy (process_env w ''GITHUB_SHA'')) \<and>
       (pull_ref_test (the (process_env w ''GITHUB_REF'')) \<longrightarrow>
          truthy (process_env w ''GITHUB_SHA'')) \<and>
       action_inputs w ''matrix'' \<noteq> None \<and>
       (process_env w ''CODEQL_ACTION_ANALYSIS_KEY'' \<noteq> None \<or>
        (truthy (process_env w ''GITHUB_REPOSITORY'') \<and>
         truthy (process_env w ''GITHUB_RUN_ID'') \<and>
         truthy (process_env w ''GITHUB_JOB'') \<and>
         (\<exists>runsResponse.
            respond w
              (GetActionsRun (at (split CHR ''/'' (the (process_env w ''GITHUB_REPOSITORY''))) 0)
                 (at (split CHR ''/'' (the (process_env w ''GITHUB_REPOSITORY''))) 1)
                 (Number c (the (process_env w ''GITHUB_RUN_ID'')))) = Some runsResponse \<and>
            respond w (GetUrl (data_workflow_url runsResponse)) \<noteq> None))) \<longrightarrow>
       (\<exists>report. fst res = Inr report)) \<and>
    (\<forall>report. fst res = Inr report \<longrightarrow>
       workflow_run_id report =
         (if truthy (process_env w ''GITHUB_RUN_ID'')
          then parseInt c (the (process_env w ''GITHUB_RUN_ID'')) else Some (- 1)) \<and>
       workflow_name report = orEmpty (process_env w ''GITHUB_WORKFLOW'') \<and>
       job_name report = orEmpty (process_env w ''GITHUB_JOB'') \<and>
       commit_oid report = orEmpty (process_env w ''GITHUB_SHA'')))"
proof -
  define res where "res = createStatusReportBase c actionName st actionStartedAt cause_arg exception_arg w"
  have ok: "\<exists>r key w2 started w3 matrix.
           getRef c w = (Inr r, w) \<and>
           getAnalysisKey c w = (Inr key, w2) \<and>
           getWorkflowStartedAt c actionStartedAt w2 = (Inr started, w3) \<and>
           getRequiredInput ''matrix'' w3 = (Inr matrix, snd res) \<and>
           workflow_run_id report =
             (if truthy (process_env w ''GITHUB_RUN_ID'')
              then parseInt c (the (process_env w ''GITHUB_RUN_ID'')) else Some (- 1)) \<and>
           workflow_name report = orEmpty (process_env w ''GITHUB_WORKFLOW'') \<and>
           job_name report = orEmpty (process_env w ''GITHUB_JOB'') \<and>
           commit_oid report = orEmpty (process_env w ''GITHUB_SHA'')"
    if "fst res = Inr report" for report
  proof -
    from that have "createStatusReportBase c actionName st actionStartedAt cause_arg exception_arg w
        = (Inr report, snd res)"
      unfolding res_def by (metis prod.collapse)
    from createStatusReportBase_Inr [OF this] show ?thesis by blast
  qed
  have 1: "res = (Inl (EnvParamMustBeSet ''GITHUB_REF''), w)"
    if "\<not> truthy (process_env w ''GITHUB_REF'')"
    unfolding res_def createStatusReportBase_def Let_def
    by (rule andThen_fail) (rule getRef_missing [OF that])
  have 2: "\<exists>e. fst res = Inl e" if m: "action_inputs w ''matrix'' = None"
  proof (cases "fst res")
    case (Inr report)
    from ok [OF Inr] obtain key w2 started w3 matrix where
      "getAnalysisKey c w = (Inr key, w2)"
      "getWorkflowStartedAt c actionStartedAt w2 = (Inr started, w3)"
      "getRequiredInput ''matrix'' w3 = (Inr matrix, snd res)" by blast
    then have "action_inputs w ''matrix'' = Some matrix"
      using getAnalysisKey_Inr getWorkflowStartedAt_frame getRequiredInput_Inr by metis
    with m show ?thesis by simp
  qed simp
  have 3: "\<exists>e. fst res = Inl e"
    if k: "process_env w ''CODEQL_ACTION_ANALYSIS_KEY'' = None"
      and a: "\<not> truthy (process_env w ''GITHUB_REPOSITORY'') \<or>
        \<not> truthy (process_env w ''GITHUB_RUN_ID'') \<or>
        \<not> truthy (process_env w ''GITHUB_JOB'')"
  proof (cases "fst res")
    case (Inr report)
    from ok [OF Inr] obtain key w2 where "getAnalysisKey c w = (Inr key, w2)" by blast
    from getAnalysisKey_Inr [OF this] k a show ?thesis by auto
  qed simp
  have 4: "\<exists>e. fst res = Inl e"
    if s: "\<not> truthy (process_env w ''GITHUB_SHA'')"
      and g: "git_head w = None \<or> pull_ref_test (the (process_env w ''GITHUB_REF''))"
  proof (cases "fst res")
    case (Inr report)
    from ok [OF Inr] obtain r where "getRef c w = (Inr r, w)" by blast
    from getRef_Inr [OF this] s g show ?thesis by auto
  qed simp
  have 5: "workflow_run_id report =
         (if truthy (process_env w ''GITHUB_RUN_ID'')
          then parseInt c (the (process_env w ''GITHUB_RUN_ID'')) else Some (- 1)) \<and>
       workflow_name report = orEmpty (process_env w ''GITHUB_WORKFLOW'') \<and>
       job_name report = orEmpty (process_env w ''GITHUB_JOB'') \<and>
       commit_oid report = orEmpty (process_env w ''GITHUB_SHA'')"
    if "fst res = Inr report" for report
    using ok [OF that] by blast
  have 6: "\<exists>report. fst res = Inr report"
    if "truthy (process_env w ''GITHUB_REF'')"
      and "git_head w \<noteq> None \<or> truthy (process_env w ''GITHUB_SHA'')"
      and "pull_ref_test (the (process_env w ''GITHUB_REF'')) \<longrightarrow>
             truthy (process_env w ''GITHUB_SHA'')"
      and "action_inputs w ''matrix'' \<noteq> None"
      and "process_env w ''CODEQL_ACTION_ANALYSIS_KEY'' \<noteq> None \<or>
           (truthy (process_env w ''GITHUB_REPOSITORY'') \<and>
            truthy (process_env w ''GITHUB_RUN_ID'') \<and>
            truthy (process_env w ''GITHUB_JOB'') \<and>
            (\<exists>runsResponse.
               respond w
                 (GetActionsRun (at (split CHR ''/'' (the (process_env w ''GITHUB_REPOSITORY''))) 0)
                    (at (split CHR ''/'' (the (process_env w ''GITHUB_REPOSITORY''))) 1)
                    (Number c (the (process_env w ''GITHUB_RUN_ID'')))) = Some runsResponse \<and>
               respond w (GetUrl (data_workflow_url runsResponse)) \<noteq> None))"
    unfolding res_def using that by (rule createStatusReportBase_succeeds)
  from 1 2 3 4 5 6 show ?thesis
    unfolding Let_def res_def [symmetric] by blast
qed


theorem createStatusReportBase_required_values_witness:
  "createStatusReportBase exampleCollab UploadSarif Starting 0 None None
     (exampleWorld\<lparr>process_env := Map.empty\<rparr>) =
     (Inl (EnvParamMustBeSet ''GITHUB_REF''), exampleWorld\<lparr>process_env := Map.empty\<rparr>) \<and>
   (\<exists>e. fst (createStatusReportBase exampleCollab UploadSarif Starting 0 None None
              (exampleWorld\<lparr>action_inputs := Map.empty\<rparr>)) = Inl e) \<and>
   (\<exists>e. fst (createStatusReportBase exampleCollab UploadSarif Starting 0 None None
              (exampleWorld\<lparr>process_env := [''GITHUB_REF'' \<mapsto> ''refs/heads/main'']\<rparr>)) = Inl e) \<and>
   (\<exists>e. fst (createStatusReportBase exampleCollab UploadSarif Starting 0 None None
              (exampleWorld\<lparr>git_head := None\<rparr>)) = Inl e) \<and>
   process_env exampleWorld ''GITHUB_RUN_ID'' = None \<and>
   process_env exampleWorld ''GITHUB_JOB'' = None \<and>
   process_env exampleWorld ''GITHUB_SHA'' = None \<and>
   (\<exists>report. fst (createStatusReportBase exampleCollab UploadSarif Starting 0 None None
                   exampleWorld) = Inr report) \<and>
   workflow_run_id exampleStartingReport = Some (- 1) \<and>
   workflow_name exampleStartingReport = [] \<and>
   job_name exampleStartingReport = [] \<and>
   commit_oid exampleStartingReport = []"
proof -
  note t = createStatusReportBase_required_values
    [where c = exampleCollab and actionName = UploadSarif and st = Starting
       and actionStartedAt = 0 and cause_arg = None and exception_arg = None, unfolded Let_def]
  have 1: "createStatusReportBase exampleCollab UploadSarif Starting 0 None None
     (exampleWorld\<lparr>process_env := Map.empty\<rparr>) =
     (Inl (EnvParamMustBeSet ''GITHUB_REF''), exampleWorld\<lparr>process_env := Map.empty\<rparr>)"
    using t [of "exampleWorld\<lparr>process_env := Map.empty\<rparr>"] by (simp add: truthy_def)
  have 2: "\<exists>e. fst (createStatusReportBase exampleCollab UploadSarif Starting 0 None None
              (exampleWorld\<lparr>action_inputs := Map.empty\<rparr>)) = Inl e"
    using t [of "exampleWorld\<lparr>action_inputs := Map.empty\<rparr>"] by simp
  have 3: "\<exists>e. fst (createStatusReportBase exampleCollab UploadSarif Starting 0 None None
              (exampleWorld\<lparr>process_env := [''GITHUB_REF'' \<mapsto> ''refs/heads/main'']\<rparr>)) = Inl e"
    using t [of "exampleWorld\<lparr>process_env := [''GITHUB_REF'' \<mapsto> ''refs/heads/main'']\<rparr>"]
    by (simp add: truthy_def)
  have 4: "\<exists>e. fst (createStatusReportBase exampleCollab UploadSarif Starting 0 None None
              (exampleWorld\<lparr>git_head := None\<rparr>)) = Inl e"
    using t [of "exampleWorld\<lparr>git_head := None\<rparr>"]
    by (simp add: truthy_def exampleWorld_def)
  have 5: "workflow_run_id exampleStartingReport = Some (- 1) \<and>
     workflow_name exampleStartingReport = [] \<and>
     job_name exampleStartingReport = [] \<and>
     commit_oid exampleStartingReport = []"
    using t [of exampleWorld] example_report_starting
    by (simp add: truthy_def orEmpty_def exampleWorld_def)
  have absent: "process_env exampleWorld ''GITHUB_RUN_ID'' = None"
    "process_env exampleWorld ''GITHUB_JOB'' = None"
    "process_env exampleWorld ''GITHUB_SHA'' = None"
    by (simp_all add: exampleWorld_def)
  have 6: "\<exists>report. fst (createStatusReportBase exampleCollab UploadSarif Starting 0 None None
                   exampleWorld) = Inr report"
    using t [of exampleWorld]
    by (simp add: truthy_def exampleWorld_def pull_ref_test_def matchPullRefHere_def)
  from 1 2 3 4 5 6 absent show ?thesis by blast
qed

text \<open>
  C6, as the spec states it, fails in the example job: run id, job name, workflow name
  and commit id are all absent from the environment, and the report is composed.
\<close>

theorem createStatusReportBase_absent_identity_counterexample:
  "process_env exampleWorld ''GITHUB_RUN_ID'' = None \<and>
   process_env exampleWorld ''GITHUB_JOB'' = None \<and>
   process_env exampleWorld ''GITHUB_WORKFLOW'' = None \<and>
   process_env exampleWorld ''GITHUB_SHA'' = None \<and>
   fst (createStatusReportBase exampleCollab UploadSarif Starting 0 None None exampleWorld) =
     Inr exampleStartingReport"
  by (simp add: createStatusReportBase_def getRef_def getCommitOid_def getAnalysisKey_def
      getWorkflowStartedAt_def getRequiredEnvParam_def getRequiredInput_def newDate_def
      exportVariable_def andThen_def ret_def pure_def truthy_def orEmpty_def isTerminal_def
      pull_ref_test_def matchPullRefHere_def exampleWorld_def exampleCollab_def Let_def
      exampleStartingReport_def exampleFailureReport_def)

text \<open>
  C5. When a status report is sent (the server is the public one, the run is not local,
  the repository is known) and the remote end answers with some status, then
  \<open>sendStatusReport\<close> returns false exactly when \<open>ignoreFailures\<close> is not true and the
  status is 403 or 404, and true for every other answer; with \<open>ignoreFailures\<close> true it
  returns true for any answer. The job is marked failed in the first case and only there,
  and the request is the one call made.
\<close>

theorem sendStatusReport_classification:
  assumes "process_env w ''GITHUB_SERVER_URL'' = Some (GITHUB_DOTCOM_URL c)"
    and "GITHUB_DOTCOM_URL c \<noteq> []"
    and "\<not> isLocalRun c (process_env w)"
    and "process_env w ''GITHUB_REPOSITORY'' = Some nwo" and "nwo \<noteq> []"
    and "respond w (PutAnalysisStatus (at (split CHR ''/'' nwo) 0) (at (split CHR ''/'' nwo) 1)
           statusReport) = Some resp"
  shows "fst (sendStatusReport c statusReport ignoreFailures w) =
           Inr (ignoreFailures = Some True \<or> (resp_status resp \<noteq> 403 \<and> resp_status resp \<noteq> 404)) \<and>
         (failed (snd (sendStatusReport c statusReport ignoreFailures w)) \<noteq> failed w \<longrightarrow>
            ignoreFailures \<noteq> Some True \<and> (resp_status resp = 403 \<or> resp_status resp = 404)) \<and>
         (ignoreFailures \<noteq> Some True \<and> (resp_status resp = 403 \<or> resp_status resp = 404) \<longrightarrow>
            failed (snd (sendStatusReport c statusReport ignoreFailures w)) \<noteq> None) \<and>
         journal (snd (sendStatusReport c statusReport ignoreFailures w)) =
           journal w @ [Request (PutAnalysisStatus (at (split CHR ''/'' nwo) 0)
                          (at (split CHR ''/'' nwo) 1) statusReport)]"
  using assms
  by (simp add: sendStatusReport_def getRequiredEnvParam_def pure_def andThen_def ret_def
      request_def setFailed_def Let_def)

theorem sendStatusReport_classification_witness:
  "fst (sendStatusReport exampleCollab (exampleReport ''gone'') (Some False) exampleWorld) =
     Inr False \<and>
   fst (sendStatusReport exampleCollab (exampleReport ''build'') (Some False) exampleWorld) =
     Inr True \<and>
   fst (sendStatusReport exampleCollab (exampleReport ''gone'') (Some True) exampleWorld) =
     Inr True"
proof -
  have env: "process_env exampleWorld ''GITHUB_SERVER_URL'' = Some (GITHUB_DOTCOM_URL exampleCollab)"
    "GITHUB_DOTCOM_URL exampleCollab \<noteq> []"
    "\<not> isLocalRun exampleCollab (process_env exampleWorld)"
    "process_env exampleWorld ''GITHUB_REPOSITORY'' = Some ''octo/repo''"
    "''octo/repo'' \<noteq> []"
    by (simp_all add: exampleWorld_def exampleCollab_def)
  have gone: "respond exampleWorld
        (PutAnalysisStatus (at (split CHR ''/'' ''octo/repo'') 0) (at (split CHR ''/'' ''octo/repo'') 1)
           (exampleReport ''gone'')) =
        Some \<lparr>resp_status = 404, data_workflow_url = [], data_path = []\<rparr>"
    by (simp add: exampleWorld_def exampleRespond_def exampleReport_def)
  have build: "respond exampleWorld
        (PutAnalysisStatus (at (split CHR ''/'' ''octo/repo'') 0) (at (split CHR ''/'' ''octo/repo'') 1)
           (exampleReport ''build'')) =
        Some \<lparr>resp_status = 500, data_workflow_url = [], data_path = []\<rparr>"
    by (simp add: exampleWorld_def exampleRespond_def exampleReport_def)
  show ?thesis
    using sendStatusReport_classification [OF env gone, of "Some False"]
      sendStatusReport_classification [OF env build, of "Some False"]
      sendStatusReport_classification [OF env gone, of "Some True"]
    by simp
qed

section \<open>Uploading\<close>

lemma readSarif_not_sentinel: "readSarif c fs p \<noteq> Inl OnlyOneUploadPerJob"
  by (auto simp: readSarif_def readFileSync_def split: sum.splits option.splits fsnode.splits)

lemma combineLoop_not_sentinel: "combineLoop c fs acc ps \<noteq> Inl OnlyOneUploadPerJob"
proof (induction ps arbitrary: acc)
  case Nil
  show ?case by simp
next
  case (Cons p ps)
  show ?case
    using readSarif_not_sentinel [of c fs p] Cons.IH
    by (auto split: sum.splits option.splits if_splits)
qed

lemma combineSarifFiles_not_sentinel: "combineSarifFiles c fs ps \<noteq> Inl OnlyOneUploadPerJob"
  using combineLoop_not_sentinel [of c fs _ ps]
  by (auto simp: combineSarifFiles_def split: sum.splits)

lemma countLoop_not_sentinel: "countLoop n rs \<noteq> Inl OnlyOneUploadPerJob"
  by (induction rs arbitrary: n) (auto split: option.splits)

lemma countResultsInSarif_not_sentinel: "countResultsInSarif c s \<noteq> Inl OnlyOneUploadPerJob"
  using countLoop_not_sentinel
  by (auto simp: countResultsInSarif_def split: option.splits)

lemma countLoop_sum:
  "list_all2 (\<lambda>r res. results r = Some res) rs resultss \<Longrightarrow>
     countLoop numResults rs = Inr (numResults + sum_list (map length resultss))"
proof (induction rs arbitrary: numResults resultss)
  case Nil
  then show ?case by simp
next
  case (Cons r rs)
  then obtain res rest where "resultss = res # rest" "results r = Some res"
    "list_all2 (\<lambda>r res. results r = Some res) rs rest"
    by (auto simp: list_all2_Cons1)
  with Cons.IH [of rest "numResults + length res"] show ?case by simp
qed

lemma countResultsInSarif_sum:
  "JSON_parse c sarif = Some doc \<Longrightarrow> runs doc = Some rs \<Longrightarrow>
   list_all2 (\<lambda>r res. results r = Some res) rs resultss \<Longrightarrow>
     countResultsInSarif c sarif = Inr (sum_list (map length resultss))"
  using countLoop_sum [of rs resultss 0] by (simp add: countResultsInSarif_def)

lemma validateSarifFileSchema_eq:
  "validateSarifFileSchema c p w =
     (case readSarif c (files w) p of
        Inl e \<Rightarrow> (Inl e, w)
      | Inr d \<Rightarrow>
          (if schemaErrors c d \<noteq> [] then Inl (InvalidSarif p (schemaErrors c d)) else Inr (),
           w\<lparr>journal := journal w @ [SchemaValidation p]\<rparr>))"
  by (simp add: validateSarifFileSchema_def andThen_def pure_def throw_def ret_def
      split: sum.splits)

lemma validateAll_result:
  "validateAll c ps w = (r, w') \<Longrightarrow>
     \<exists>evs. w' = w\<lparr>journal := journal w @ evs\<rparr> \<and> (\<forall>rq. Request rq \<notin> set evs) \<and>
           r \<noteq> Inl OnlyOneUploadPerJob \<and> (r = Inr () \<longrightarrow> evs = map SchemaValidation ps)"
proof (induction ps arbitrary: w)
  case Nil
  then show ?case by (auto simp: ret_def)
next
  case (Cons p ps)
  show ?case
  proof (cases "readSarif c (files w) p")
    case (Inl e)
    with Cons.prems readSarif_not_sentinel [of c "files w" p] show ?thesis
      by (auto simp: validateSarifFileSchema_eq andThen_def intro!: exI[of _ "[]"])
  next
    case (Inr d)
    let ?w1 = "w\<lparr>journal := journal w @ [SchemaValidation p]\<rparr>"
    show ?thesis
    proof (cases "schemaErrors c d = []")
      case False
      with Inr Cons.prems show ?thesis
        by (auto simp: validateSarifFileSchema_eq andThen_def intro!: exI[of _ "[SchemaValidation p]"])
    next
      case True
      with Inr Cons.prems have "validateAll c ps ?w1 = (r, w')"
        by (simp add: validateSarifFileSchema_eq andThen_def)
      from Cons.IH [OF this] obtain evs where
        "w' = ?w1\<lparr>journal := journal ?w1 @ evs\<rparr>" "\<forall>rq. Request rq \<notin> set evs"
        "r \<noteq> Inl OnlyOneUploadPerJob" "r = Inr () \<longrightarrow> evs = map SchemaValidation ps"
        by blast
      then show ?thesis
        by (intro exI[of _ "SchemaValidation p # evs"]) simp
    qed
  qed
qed

lemma validateAll_valid:
  "\<forall>f\<in>set ps. \<exists>d. readSarif c (files w) f = Inr d \<and> schemaErrors c d = [] \<Longrightarrow>
     validateAll c ps w = (Inr (), w\<lparr>journal := journal w @ map SchemaValidation ps\<rparr>)"
proof (induction ps arbitrary: w)
  case Nil
  then show ?case by (simp add: ret_def)
next
  case (Cons p ps)
  let ?w1 = "w\<lparr>journal := journal w @ [SchemaValidation p]\<rparr>"
  from Cons.prems obtain d where d: "readSarif c (files w) p = Inr d" "schemaErrors c d = []"
    by auto
  from Cons.prems have "\<forall>f\<in>set ps. \<exists>d. readSarif c (files ?w1) f = Inr d \<and> schemaErrors c d = []"
    by simp
  from Cons.IH [OF this] d show ?case
    by (simp add: validateSarifFileSchema_eq andThen_def)
qed

lemma validateAll_Inr_valid:
  "validateAll c ps w = (Inr u, w') \<Longrightarrow>
     \<forall>f\<in>set ps. \<exists>d. readSarif c (files w) f = Inr d \<and> schemaErrors c d = []"
proof (induction ps arbitrary: w)
  case Nil
  show ?case by simp
next
  case (Cons p ps)
  from Cons.prems obtain d where
    d: "readSarif c (files w) p = Inr d" "schemaErrors c d = []" and
    rest: "validateAll c ps (w\<lparr>journal := journal w @ [SchemaValidation p]\<rparr>) = (Inr u, w')"
    by (auto simp: validateSarifFileSchema_eq andThen_def split: sum.splits if_splits)
  from Cons.IH [OF rest] d show ?case by simp
qed

lemma uploadPayload_eq:
  "uploadPayload pl nwo m w =
     (if process_env w ''TEST_MODE'' = Some ''true'' then (Inr (), w)
      else
        (case respond w ((if m = Actions then PutAnalysis else PostSarifs)
                            (nwo_owner nwo) (nwo_repo nwo) pl) of
           None \<Rightarrow> Inl RequestError
         | Some resp \<Rightarrow> Inr (),
         w\<lparr>journal := journal w @
              [Request ((if m = Actions then PutAnalysis else PostSarifs)
                          (nwo_owner nwo) (nwo_repo nwo) pl)]\<rparr>))"
  by (simp add: uploadPayload_def andThen_def request_def ret_def Let_def split: option.splits)

lemma checkSentinel_eq:
  "checkSentinel m w =
     (if m = Actions then
        (if truthy (process_env w ''CODEQL_UPLOAD_SARIF'') then (Inl OnlyOneUploadPerJob, w)
         else (Inr (), w\<lparr>process_env := (process_env w)(''CODEQL_UPLOAD_SARIF'' \<mapsto> ''CODEQL_UPLOAD_SARIF'')\<rparr>))
      else (Inr (), w))"
  by (simp add: checkSentinel_def throw_def exportVariable_def ret_def Let_def)


lemma uploadFiles_eq:
  "uploadFiles c ps nwo commitOid r ak an wr cp env m w =
     (case checkSentinel m w of
        (Inl e, w1) \<Rightarrow> (Inl e, w1)
      | (Inr u, w1) \<Rightarrow>
     (case validateAll c ps w1 of
        (Inl e, w2) \<Rightarrow> (Inl e, w2)
      | (Inr u, w2) \<Rightarrow>
     (case combineSarifFiles c (files w2) ps of
        Inl e \<Rightarrow> (Inl e, w2)
      | Inr combined \<Rightarrow>
     (case addFingerprints c combined cp of
        None \<Rightarrow> (Inl CollaboratorError, w2)
      | Some fp \<Rightarrow>
     (case getToolNames c fp of
        None \<Rightarrow> (Inl CollaboratorError, w2)
      | Some tn \<Rightarrow>
     (case countResultsInSarif c fp of
        Inl e \<Rightarrow> (Inl e, w2)
      | Inr n \<Rightarrow>
     (case uploadPayload
             (buildPayload m commitOid r ak an (toBase64 c (gzipSync c fp)) wr (fileUrl c cp) env
                 (process_env w2 (CODEQL_WORKFLOW_STARTED_AT c)) tn) nwo m w2 of
        (Inl e, w3) \<Rightarrow> (Inl e, w3)
      | (Inr u, w3) \<Rightarrow>
          (Inr \<lparr>raw_upload_size_bytes = length fp,
               zipped_upload_size_bytes = length (toBase64 c (gzipSync c fp)),
               num_results_in_sarif = n\<rparr>, w3))))))))"
  by (simp add: uploadFiles_def andThen_def pure_def ret_def Let_def callAddFingerprints_def
      callGetToolNames_def split: prod.splits sum.splits option.splits)

lemma uploadFiles_cases:
  assumes run: "uploadFiles c ps nwo commitOid r ak an wr cp env m w = (res, w')"
  obtains
    (early) e evs where
      "res = Inl e" "w' = (snd (checkSentinel m w))\<lparr>journal := journal w @ evs\<rparr>"
      "\<forall>rq. Request rq \<notin> set evs"
      "e = OnlyOneUploadPerJob \<longrightarrow> fst (checkSentinel m w) = Inl OnlyOneUploadPerJob"
  | (reached) w1 combined fp tn n ur where
      "checkSentinel m w = (Inr (), w1)"
      "\<forall>f\<in>set ps. \<exists>d. readSarif c (files w) f = Inr d \<and> schemaErrors c d = []"
      "combineSarifFiles c (files w) ps = Inr combined"
      "addFingerprints c combined cp = Some fp"
      "getToolNames c fp = Some tn"
      "countResultsInSarif c fp = Inr n"
      "uploadPayload
         (buildPayload m commitOid r ak an (toBase64 c (gzipSync c fp)) wr (fileUrl c cp) env
                 (process_env w1 (CODEQL_WORKFLOW_STARTED_AT c)) tn) nwo m
         (w1\<lparr>journal := journal w @ map SchemaValidation ps\<rparr>) = (ur, w')"
      "res = (case ur of Inl e \<Rightarrow> Inl e | Inr u \<Rightarrow> Inr \<lparr>raw_upload_size_bytes = length fp,
               zipped_upload_size_bytes = length (toBase64 c (gzipSync c fp)),
               num_results_in_sarif = n\<rparr>)"
proof -
  obtain r1 w1 where s1: "checkSentinel m w = (r1, w1)" by force
  show thesis
  proof (cases r1)
    case (Inl e)
    with s1 have e: "e = OnlyOneUploadPerJob" "w1 = w"
      by (auto simp: checkSentinel_eq split: if_splits)
    from run s1 Inl have "res = Inl e" "w' = w1" by (simp_all add: uploadFiles_eq)
    with e s1 Inl show thesis by (intro early [of e "[]"]) simp_all
  next
    case (Inr u)
    with s1 have w1: "journal w1 = journal w" "files w1 = files w" "snd (checkSentinel m w) = w1"
      by (auto simp: checkSentinel_eq split: if_splits)
    obtain r2 w2 where s2: "validateAll c ps w1 = (r2, w2)" by force
    from validateAll_result [OF s2] obtain evs where
      w2: "w2 = w1\<lparr>journal := journal w1 @ evs\<rparr>" and evs: "\<forall>rq. Request rq \<notin> set evs"
      and ns: "r2 \<noteq> Inl OnlyOneUploadPerJob" and ok: "r2 = Inr () \<longrightarrow> evs = map SchemaValidation ps"
      by blast
    have stop: thesis if "res = Inl e" "w' = w2" "e \<noteq> OnlyOneUploadPerJob" for e
      using that w1 w2 evs by (intro early [of e evs]) simp_all
    show thesis
    proof (cases r2)
      case (Inl e)
      with run s1 s2 \<open>r1 = Inr u\<close> ns show thesis
        by (intro stop [of e]) (simp_all add: uploadFiles_eq)
    next
      case u2: (Inr u')
      with ok have evs': "evs = map SchemaValidation ps" by simp
      from w2 w1 have f2: "files w2 = files w" "process_env w2 = process_env w1" by simp_all
      show thesis
      proof (cases "combineSarifFiles c (files w) ps")
        case (Inl e)
        with run s1 s2 \<open>r1 = Inr u\<close> u2 f2 combineSarifFiles_not_sentinel [of c "files w" ps]
        show thesis by (intro stop [of e]) (simp_all add: uploadFiles_eq)
      next
        case cmb: (Inr combined)
        show thesis
        proof (cases "addFingerprints c combined cp")
          case None
          with run s1 s2 \<open>r1 = Inr u\<close> u2 f2 cmb show thesis
            by (intro stop [of CollaboratorError]) (simp_all add: uploadFiles_eq)
        next
          case fp: (Some fp)
          show thesis
          proof (cases "getToolNames c fp")
            case None
            with run s1 s2 \<open>r1 = Inr u\<close> u2 f2 cmb fp show thesis
              by (intro stop [of CollaboratorError]) (simp_all add: uploadFiles_eq)
          next
            case tn: (Some tn)
            show thesis
            proof (cases "countResultsInSarif c fp")
              case (Inl e)
              with run s1 s2 \<open>r1 = Inr u\<close> u2 f2 cmb fp tn
                countResultsInSarif_not_sentinel [of c fp]
              show thesis by (intro stop [of e]) (simp_all add: uploadFiles_eq)
            next
              case n: (Inr n)
              obtain ur w3 where
                up: "uploadPayload
                   (buildPayload m commitOid r ak an (toBase64 c (gzipSync c fp)) wr (fileUrl c cp) env
                 (process_env w1 (CODEQL_WORKFLOW_STARTED_AT c)) tn) nwo m
                   (w1\<lparr>journal := journal w @ map SchemaValidation ps\<rparr>) = (ur, w3)"
                by force
              from w2 evs' w1 have w2': "w2 = w1\<lparr>journal := journal w @ map SchemaValidation ps\<rparr>"
                by simp
              from run s1 s2 \<open>r1 = Inr u\<close> u2 f2 cmb fp tn n up w2'
              have fin: "w' = w3"
                "res = (case ur of Inl e \<Rightarrow> Inl e | Inr u \<Rightarrow> Inr \<lparr>raw_upload_size_bytes = length fp,
               zipped_upload_size_bytes = length (toBase64 c (gzipSync c fp)),
               num_results_in_sarif = n\<rparr>)"
                by (auto simp: uploadFiles_eq split: sum.splits)
              from s2 u2 w1 have rd:
                "\<forall>f\<in>set ps. \<exists>d. readSarif c (files w) f = Inr d \<and> schemaErrors c d = []"
                using validateAll_Inr_valid [of c ps w1 u' w2] by simp
              from s1 \<open>r1 = Inr u\<close> have "checkSentinel m w = (Inr (), w1)" by simp
              from this rd cmb fp tn n up [unfolded fin(1) [symmetric]] fin(2)
              show thesis by (rule reached)
            qed
          qed
        qed
      qed
    qed
  qed
qed

lemma map_of_property:
  "map_of (property k v @ rest) k' = (if k' = k \<and> v \<noteq> None then v else map_of rest k')"
  by (auto simp: property_def split: option.splits)

lemma map_of_property_last:
  "map_of (property k v) k' = (if k' = k then v else None)"
  by (auto simp: property_def split: option.splits)

lemma buildPayload_sarif:
  "map_of (buildPayload m commitOid r ak an zipped wr uri env started tn) ''sarif'' =
     Some (JString zipped)"
  by (simp add: buildPayload_def map_of_property map_of_property_last del: map_of_append)

lemma buildPayload_tool_name:
  "map_of (buildPayload Standalone commitOid r ak an zipped wr uri env started tn) ''tool_name'' =
     map_option JString (at tn 0)"
  "map_of (buildPayload Standalone commitOid r ak an zipped wr uri env started tn) ''tool_names'' =
     None"
  by (simp_all add: buildPayload_def map_of_property map_of_property_last del: map_of_append)

lemma at_0: "at xs 0 = (case xs of [] \<Rightarrow> None | x # _ \<Rightarrow> Some x)"
  by (cases xs) (simp_all add: at_def)

lemma validateAll_env:
  "validateAll c ps (w\<lparr>process_env := pe\<rparr>) =
     (fst (validateAll c ps w), (snd (validateAll c ps w))\<lparr>process_env := pe\<rparr>)"
proof (induction ps arbitrary: w)
  case Nil
  show ?case by (simp add: ret_def)
next
  case (Cons p ps)
  show ?case
  proof (cases "readSarif c (files w) p")
    case (Inl e)
    then show ?thesis by (simp add: validateSarifFileSchema_eq andThen_def)
  next
    case (Inr d)
    let ?w1 = "w\<lparr>journal := journal w @ [SchemaValidation p]\<rparr>"
    have swap: "w\<lparr>process_env := pe, journal := journal w @ [SchemaValidation p]\<rparr> =
                  ?w1\<lparr>process_env := pe\<rparr>"
      by simp
    show ?thesis
    proof (cases "schemaErrors c d = []")
      case True
      with Inr have "validateAll c (p # ps) (w\<lparr>process_env := pe\<rparr>) =
                       validateAll c ps (?w1\<lparr>process_env := pe\<rparr>)"
        and "validateAll c (p # ps) w = validateAll c ps ?w1"
        by (simp_all add: validateSarifFileSchema_eq andThen_def swap)
      with Cons.IH [of ?w1] show ?thesis by simp
    next
      case False
      with Inr show ?thesis by (simp add: validateSarifFileSchema_eq andThen_def)
    qed
  qed
qed

lemma buildPayload_Standalone_started:
  "buildPayload Standalone commitOid r ak an zipped wr uri env started tn =
   buildPayload Standalone commitOid r ak an zipped wr uri env started' tn"
  by (simp add: buildPayload_def)

lemma uploadFiles_Standalone_env:
  assumes "pe ''TEST_MODE'' = process_env w ''TEST_MODE''"
  shows "uploadFiles c ps nwo commitOid r ak an wr cp env Standalone (w\<lparr>process_env := pe\<rparr>) =
     (fst (uploadFiles c ps nwo commitOid r ak an wr cp env Standalone w),
      (snd (uploadFiles c ps nwo commitOid r ak an wr cp env Standalone w))\<lparr>process_env := pe\<rparr>)"
proof -
  obtain r2 w2 where v: "validateAll c ps w = (r2, w2)" by force
  from validateAll_result [OF v] obtain evs where w2: "w2 = w\<lparr>journal := journal w @ evs\<rparr>"
    by blast
  have v': "validateAll c ps (w\<lparr>process_env := pe\<rparr>) = (r2, w2\<lparr>process_env := pe\<rparr>)"
    using v by (simp add: validateAll_env)
  show ?thesis
    unfolding uploadFiles_eq
    using v v' w2 assms
      buildPayload_Standalone_started [where started = "pe (CODEQL_WORKFLOW_STARTED_AT c)"
        and started' = "process_env w (CODEQL_WORKFLOW_STARTED_AT c)"]
    by (simp add: checkSentinel_eq uploadPayload_eq split: sum.splits option.splits)
qed

lemma endsWith_suffix: "endsWith s suf \<longleftrightarrow> suffix suf s"
proof
  assume "endsWith s suf"
  then have "s = take (length s - length suf) s @ suf"
    by (metis append_take_drop_id endsWith_def)
  then show "suffix suf s" by (metis suffixI)
next
  assume "suffix suf s"
  then obtain zs where "s = zs @ suf" by (auto simp: suffix_def)
  then show "endsWith s suf" by (simp add: endsWith_def)
qed

section \<open>The example upload\<close>

lemma example_combined:
  "combineSarifFiles exampleCollab exampleFiles [''out/a.sarif'', ''out/b.sarif''] =
     Inr ''toolAtoolB''"
proof -
  have "combineSarifFiles exampleCollab exampleFiles [''out/a.sarif'', ''out/b.sarif''] =
          Inr (JSON_stringify exampleCollab
                 \<lparr>combined_version = JSString ''2.1.0'', combined_runs = [runA, runB]\<rparr>)"
    by (simp add: combineSarifFiles_def example_read_a example_read_b)
  then show ?thesis by (simp add: exampleCollab_def runA_def runB_def)
qed

lemma example_collab_values:
  "addFingerprints exampleCollab s cp = Some (s @ ''#'')"
  "getToolNames exampleCollab s = Some [''CodeQL'', ''Other'']"
  "toBase64 exampleCollab (gzipSync exampleCollab ''toolAtoolB#'') = ''========''"
  "fileUrl exampleCollab ''/w'' = ''file:///w''"
  "countResultsInSarif exampleCollab ''toolAtoolB#'' = Inr 3"
  "schemaErrors exampleCollab \<lparr>version = JSString ''2.1.0'', runs = rs\<rparr> = []"
  by (simp_all add: exampleCollab_def countResultsInSarif_def exampleParse_def runA_def runB_def)

lemma example_validateAll:
  "files w = exampleFiles \<Longrightarrow>
   validateAll exampleCollab [''out/a.sarif'', ''out/b.sarif''] w =
     (Inr (), w\<lparr>journal := journal w @
                   [SchemaValidation ''out/a.sarif'', SchemaValidation ''out/b.sarif'']\<rparr>)"
  using validateAll_valid [of "[''out/a.sarif'', ''out/b.sarif'']" exampleCollab w]
  by (simp add: example_read_a example_read_b example_collab_values)

lemma example_upload_standalone:
  "uploadFiles exampleCollab [''out/a.sarif'', ''out/b.sarif''] exampleNwo ''0a1b2c'' ''refs/heads/main'' None None None ''/w'' None Standalone exampleWorld =
     (Inr exampleUploadReport,
      exampleWorld\<lparr>journal :=
        [SchemaValidation ''out/a.sarif'', SchemaValidation ''out/b.sarif'',
         Request (PostSarifs ''octo'' ''repo'' exampleStandalonePayload)]\<rparr>)"
proof -
  have f: "files exampleWorld = exampleFiles" by (simp add: exampleWorld_def)
  have j: "journal exampleWorld = []" "process_env exampleWorld ''TEST_MODE'' = None"
    by (simp_all add: exampleWorld_def)
  have r: "respond exampleWorld (PostSarifs ''octo'' ''repo'' pl) =
             Some \<lparr>resp_status = 202, data_workflow_url = ''url'', data_path = ''wf.yml''\<rparr>" for pl
    by (simp add: exampleWorld_def exampleRespond_def)
  show ?thesis
    unfolding uploadFiles_eq
    by (simp add: checkSentinel_eq example_validateAll [OF f] f j r example_combined
        example_collab_values uploadPayload_eq buildPayload_def property_def at_def
        exampleNwo_def exampleStandalonePayload_def exampleUploadReport_def
        del: validateAll.simps)
qed

section \<open>Claims about the upload\<close>

text \<open>
  C3. In actions mode, an upload attempt in a job whose sentinel \<open>CODEQL_UPLOAD_SARIF\<close> is
  set fails with the only-one-upload-per-job error and leaves the world as it was: no
  file has been validated and no request made. In a job where the sentinel is not yet
  set, the attempt does not fail with that error, and whatever its outcome it sets the
  sentinel, so that any further attempt in the resulting world fails with that error. In
  standalone mode the error never occurs, and the outcome is the same for any value of
  the sentinel.
\<close>

theorem uploadFiles_sentinel:
  "(truthy (process_env w ''CODEQL_UPLOAD_SARIF'') \<longrightarrow>
      uploadFiles c sarifFiles repositoryNwo commitOid ref_arg analysisKey analysisName
             workflowRunID checkoutPath environment Actions w = (Inl OnlyOneUploadPerJob, w)) \<and>
   (\<not> truthy (process_env w ''CODEQL_UPLOAD_SARIF'') \<longrightarrow>
      fst (uploadFiles c sarifFiles repositoryNwo commitOid ref_arg analysisKey analysisName
             workflowRunID checkoutPath environment Actions w) \<noteq> Inl OnlyOneUploadPerJob \<and>
      uploadFiles c next_sarifFiles next_repositoryNwo next_commitOid next_ref_arg next_analysisKey next_analysisName
             next_workflowRunID next_checkoutPath next_environment Actions
        (snd (uploadFiles c sarifFiles repositoryNwo commitOid ref_arg analysisKey analysisName
             workflowRunID checkoutPath environment Actions w)) =
        (Inl OnlyOneUploadPerJob,
         snd (uploadFiles c sarifFiles repositoryNwo commitOid ref_arg analysisKey analysisName
             workflowRunID checkoutPath environment Actions w))) \<and>
   fst (uploadFiles c sarifFiles repositoryNwo commitOid ref_arg analysisKey analysisName
             workflowRunID checkoutPath environment Standalone w) \<noteq> Inl OnlyOneUploadPerJob \<and>
   uploadFiles c sarifFiles repositoryNwo commitOid ref_arg analysisKey analysisName
             workflowRunID checkoutPath environment Standalone
     (w\<lparr>process_env := (process_env w)(''CODEQL_UPLOAD_SARIF'' := v)\<rparr>) =
     (fst (uploadFiles c sarifFiles repositoryNwo commitOid ref_arg analysisKey analysisName
             workflowRunID checkoutPath environment Standalone w),
      (snd (uploadFiles c sarifFiles repositoryNwo commitOid ref_arg analysisKey analysisName
             workflowRunID checkoutPath environment Standalone w))
        \<lparr>process_env := (process_env w)(''CODEQL_UPLOAD_SARIF'' := v)\<rparr>)"
proof -
  have again: "uploadFiles c' ps nwo co r ak an wr cp env Actions w0 = (Inl OnlyOneUploadPerJob, w0)"
    if "truthy (process_env w0 ''CODEQL_UPLOAD_SARIF'')" for c' ps nwo co r ak an wr cp env w0
    using that by (simp add: uploadFiles_eq checkSentinel_eq)
  have first: "fst (uploadFiles c sarifFiles repositoryNwo commitOid ref_arg analysisKey analysisName
             workflowRunID checkoutPath environment Actions w) \<noteq> Inl OnlyOneUploadPerJob \<and>
      truthy (process_env (snd (uploadFiles c sarifFiles repositoryNwo commitOid ref_arg analysisKey analysisName
             workflowRunID checkoutPath environment Actions w)) ''CODEQL_UPLOAD_SARIF'')"
    if fresh: "\<not> truthy (process_env w ''CODEQL_UPLOAD_SARIF'')"
  proof -
    obtain res w' where run: "uploadFiles c sarifFiles repositoryNwo commitOid ref_arg analysisKey analysisName
             workflowRunID checkoutPath environment Actions w = (res, w')" by force
    from fresh have cs: "checkSentinel Actions w =
        (Inr (), w\<lparr>process_env := (process_env w)(''CODEQL_UPLOAD_SARIF'' \<mapsto> ''CODEQL_UPLOAD_SARIF'')\<rparr>)"
      by (simp add: checkSentinel_eq)
    from run have "res \<noteq> Inl OnlyOneUploadPerJob \<and> truthy (process_env w' ''CODEQL_UPLOAD_SARIF'')"
    proof (cases rule: uploadFiles_cases)
      case (early e evs)
      with cs show ?thesis by (auto simp: truthy_def)
    next
      case (reached w1 combined fp tn n ur)
      from reached(7) have "process_env w' = process_env w1" "ur \<noteq> Inl OnlyOneUploadPerJob"
        by (auto simp: uploadPayload_eq split: if_splits option.splits)
      with reached(1,8) cs show ?thesis by (cases ur) (auto simp: truthy_def)
    qed
    with run show ?thesis by simp
  qed
  have standalone: "fst (uploadFiles c sarifFiles repositoryNwo commitOid ref_arg analysisKey analysisName
             workflowRunID checkoutPath environment Standalone w) \<noteq> Inl OnlyOneUploadPerJob"
  proof -
    obtain res w' where run: "uploadFiles c sarifFiles repositoryNwo commitOid ref_arg analysisKey analysisName
             workflowRunID checkoutPath environment Standalone w = (res, w')" by force
    from run have "res \<noteq> Inl OnlyOneUploadPerJob"
    proof (cases rule: uploadFiles_cases)
      case (early e evs)
      then show ?thesis by (auto simp: checkSentinel_eq)
    next
      case (reached w1 combined fp tn n ur)
      from reached(7) have "ur \<noteq> Inl OnlyOneUploadPerJob"
        by (auto simp: uploadPayload_eq split: if_splits option.splits)
      with reached(8) show ?thesis by (cases ur) auto
    qed
    with run show ?thesis by simp
  qed
  show ?thesis
    using again first standalone
      uploadFiles_Standalone_env [of "(process_env w)(''CODEQL_UPLOAD_SARIF'' := v)" w]
    by simp
qed

theorem uploadFiles_sentinel_witness:
  "fst (uploadFiles exampleCollab [''out/a.sarif'', ''out/b.sarif'']
      exampleNwo ''0a1b2c'' ''refs/heads/main'' None None None ''/w'' None Actions exampleWorld) \<noteq> Inl OnlyOneUploadPerJob \<and>
   uploadFiles exampleCollab [''old.sarif'']
      exampleNwo ''0a1b2c'' ''refs/heads/main'' None None None ''/w'' None Actions
     (snd (uploadFiles exampleCollab [''out/a.sarif'', ''out/b.sarif'']
      exampleNwo ''0a1b2c'' ''refs/heads/main'' None None None ''/w'' None Actions exampleWorld)) =
     (Inl OnlyOneUploadPerJob,
      snd (uploadFiles exampleCollab [''out/a.sarif'', ''out/b.sarif'']
      exampleNwo ''0a1b2c'' ''refs/heads/main'' None None None ''/w'' None Actions exampleWorld)) \<and>
   uploadFiles exampleCollab [''out/a.sarif'', ''out/b.sarif'']
      exampleNwo ''0a1b2c'' ''refs/heads/main'' None None None ''/w'' None Actions
     (exampleWorld\<lparr>process_env := [''CODEQL_UPLOAD_SARIF'' \<mapsto> ''CODEQL_UPLOAD_SARIF'']\<rparr>) =
     (Inl OnlyOneUploadPerJob,
      exampleWorld\<lparr>process_env := [''CODEQL_UPLOAD_SARIF'' \<mapsto> ''CODEQL_UPLOAD_SARIF'']\<rparr>)"
proof -
  note t = uploadFiles_sentinel
    [where c = exampleCollab and sarifFiles = "[''out/a.sarif'', ''out/b.sarif'']"
       and repositoryNwo = exampleNwo and commitOid = "''0a1b2c''"
       and ref_arg = "''refs/heads/main''" and analysisKey = None and analysisName = None
       and workflowRunID = None and checkoutPath = "''/w''" and environment = None
       and next_sarifFiles = "[''old.sarif'']"
       and next_repositoryNwo = exampleNwo and next_commitOid = "''0a1b2c''"
       and next_ref_arg = "''refs/heads/main''" and next_analysisKey = None and next_analysisName = None
       and next_workflowRunID = None and next_checkoutPath = "''/w''" and next_environment = None
       and v = None]
  have fresh: "\<not> truthy (process_env exampleWorld ''CODEQL_UPLOAD_SARIF'')"
    by (simp add: truthy_def exampleWorld_def)
  have claimed: "truthy (process_env
      (exampleWorld\<lparr>process_env := [''CODEQL_UPLOAD_SARIF'' \<mapsto> ''CODEQL_UPLOAD_SARIF'']\<rparr>)
      ''CODEQL_UPLOAD_SARIF'')"
    by (simp add: truthy_def)
  show ?thesis
    using t [of exampleWorld] fresh
      t [of "exampleWorld\<lparr>process_env := [''CODEQL_UPLOAD_SARIF'' \<mapsto> ''CODEQL_UPLOAD_SARIF'']\<rparr>"]
      claimed
    by blast
qed

text \<open>
  C4. Whenever \<open>uploadFiles\<close> makes a request, in either mode, the request is the upload
  call of that mode and the \<open>sarif\<close> property of its payload is the base64 text of the
  gzip compression of the fingerprinted document, that is of what \<open>addFingerprints\<close>
  returned for the serialization that \<open>combineSarifFiles\<close> returned. In standalone mode
  the payload has no \<open>tool_names\<close> property, and its \<open>tool_name\<close> property is the first
  of the detected tool names (it is absent when no tool name was detected).
\<close>

theorem uploadFiles_sarif_field:
  assumes "uploadFiles c sarifFiles repositoryNwo commitOid ref_arg analysisKey analysisName
             workflowRunID checkoutPath environment mode_arg w = (res, w')"
    and "Request rq \<in> set (drop (length (journal w)) (journal w'))"
  shows "\<exists>combined fingerprinted toolNames pl.
           combineSarifFiles c (files w) sarifFiles = Inr combined \<and>
           addFingerprints c combined checkoutPath = Some fingerprinted \<and>
           getToolNames c fingerprinted = Some toolNames \<and>
           rq = (if mode_arg = Actions then PutAnalysis else PostSarifs)
                  (nwo_owner repositoryNwo) (nwo_repo repositoryNwo) pl \<and>
           map_of pl ''sarif'' = Some (JString (toBase64 c (gzipSync c fingerprinted))) \<and>
           (mode_arg = Standalone \<longrightarrow>
              map_of pl ''tool_names'' = None \<and>
              map_of pl ''tool_name'' =
                (case toolNames of [] \<Rightarrow> None | first # others \<Rightarrow> Some (JString first)))"
  using assms(1)
proof (cases rule: uploadFiles_cases)
  case (early e evs)
  with assms(2) show ?thesis by simp
next
  case (reached w1 combined fp tn n ur)
  from reached(1) have j1: "journal w1 = journal w"
    by (auto simp: checkSentinel_eq split: if_splits)
  let ?pl = "buildPayload mode_arg commitOid ref_arg analysisKey analysisName
               (toBase64 c (gzipSync c fp)) workflowRunID (fileUrl c checkoutPath) environment
               (process_env w1 (CODEQL_WORKFLOW_STARTED_AT c)) tn"
  from reached(7) assms(2) have
    "rq = (if mode_arg = Actions then PutAnalysis else PostSarifs)
            (nwo_owner repositoryNwo) (nwo_repo repositoryNwo) ?pl"
    by (auto simp: uploadPayload_eq split: if_splits)
  moreover have "mode_arg = Standalone \<longrightarrow>
              map_of ?pl ''tool_names'' = None \<and>
              map_of ?pl ''tool_name'' =
                (case tn of [] \<Rightarrow> None | first # others \<Rightarrow> Some (JString first))"
    by (auto simp: buildPayload_tool_name at_0 split: list.splits)
  ultimately show ?thesis
    using reached(3,4,5) buildPayload_sarif by blast
qed

theorem uploadFiles_sarif_field_witness:
  "uploadFiles exampleCollab [''out/a.sarif'', ''out/b.sarif'']
      exampleNwo ''0a1b2c'' ''refs/heads/main'' None None None ''/w'' None Standalone exampleWorld =
     (Inr exampleUploadReport,
      exampleWorld\<lparr>journal :=
        [SchemaValidation ''out/a.sarif'', SchemaValidation ''out/b.sarif'',
         Request (PostSarifs ''octo'' ''repo'' exampleStandalonePayload)]\<rparr>) \<and>
   map_of exampleStandalonePayload ''sarif'' =
     Some (JString (toBase64 exampleCollab (gzipSync exampleCollab ''toolAtoolB#''))) \<and>
   map_of exampleStandalonePayload ''tool_names'' = None \<and>
   map_of exampleStandalonePayload ''tool_name'' = Some (JString ''CodeQL'')"
proof -
  have mem: "Request (PostSarifs ''octo'' ''repo'' exampleStandalonePayload) \<in>
      set (drop (length (journal exampleWorld))
             (journal (exampleWorld\<lparr>journal :=
        [SchemaValidation ''out/a.sarif'', SchemaValidation ''out/b.sarif'',
         Request (PostSarifs ''octo'' ''repo'' exampleStandalonePayload)]\<rparr>)))"
    by (simp add: exampleWorld_def)
  from uploadFiles_sarif_field [OF example_upload_standalone mem]
  obtain combined fingerprinted toolNames pl where
    "combineSarifFiles exampleCollab (files exampleWorld) [''out/a.sarif'', ''out/b.sarif''] =
       Inr combined"
    "addFingerprints exampleCollab combined ''/w'' = Some fingerprinted"
    "getToolNames exampleCollab fingerprinted = Some toolNames"
    "PostSarifs ''octo'' ''repo'' exampleStandalonePayload =
       PostSarifs (nwo_owner exampleNwo) (nwo_repo exampleNwo) pl"
    "map_of pl ''sarif'' =
       Some (JString (toBase64 exampleCollab (gzipSync exampleCollab fingerprinted)))"
    "map_of pl ''tool_names'' = None"
    "map_of pl ''tool_name'' =
       (case toolNames of [] \<Rightarrow> None | first # others \<Rightarrow> Some (JString first))"
    by auto
  then show ?thesis
    using example_upload_standalone
    by (auto simp: example_combined example_collab_values exampleWorld_def)
qed

text \<open>
  C7. In the report of every upload that returns, \<open>raw_upload_size_bytes\<close> is the length
  of the fingerprinted JSON string (what \<open>addFingerprints\<close> returned, before compression)
  and \<open>zipped_upload_size_bytes\<close> is the length of the base64 text of its compression.
\<close>

theorem uploadFiles_sizes:
  assumes "uploadFiles c sarifFiles repositoryNwo commitOid ref_arg analysisKey analysisName
             workflowRunID checkoutPath environment mode_arg w = (Inr report, w')"
  shows "\<exists>combined fingerprinted.
           combineSarifFiles c (files w) sarifFiles = Inr combined \<and>
           addFingerprints c combined checkoutPath = Some fingerprinted \<and>
           raw_upload_size_bytes report = length fingerprinted \<and>
           zipped_upload_size_bytes report = length (toBase64 c (gzipSync c fingerprinted))"
  using assms
proof (cases rule: uploadFiles_cases)
  case (early e evs)
  then show ?thesis by simp
next
  case (reached w1 combined fp tn n ur)
  from reached(8) have
    "report = \<lparr>raw_upload_size_bytes = length fp,
               zipped_upload_size_bytes = length (toBase64 c (gzipSync c fp)),
               num_results_in_sarif = n\<rparr>"
    by (cases ur) simp_all
  with reached(3,4) show ?thesis by simp
qed

theorem uploadFiles_sizes_witness:
  "fst (uploadFiles exampleCollab [''out/a.sarif'', ''out/b.sarif'']
      exampleNwo ''0a1b2c'' ''refs/heads/main'' None None None ''/w'' None Standalone exampleWorld) = Inr exampleUploadReport \<and>
   raw_upload_size_bytes exampleUploadReport = length ''toolAtoolB#'' \<and>
   zipped_upload_size_bytes exampleUploadReport =
     length (toBase64 exampleCollab (gzipSync exampleCollab ''toolAtoolB#'')) \<and>
   zipped_upload_size_bytes exampleUploadReport \<noteq>
     length (gzipSync exampleCollab ''toolAtoolB#'')"
proof -
  from uploadFiles_sizes [OF example_upload_standalone]
  obtain combined fingerprinted where
    "combineSarifFiles exampleCollab (files exampleWorld) [''out/a.sarif'', ''out/b.sarif''] =
       Inr combined"
    "addFingerprints exampleCollab combined ''/w'' = Some fingerprinted"
    "raw_upload_size_bytes exampleUploadReport = length fingerprinted"
    "zipped_upload_size_bytes exampleUploadReport =
       length (toBase64 exampleCollab (gzipSync exampleCollab fingerprinted))"
    by blast
  then have "raw_upload_size_bytes exampleUploadReport = length ''toolAtoolB#''"
    "zipped_upload_size_bytes exampleUploadReport =
       length (toBase64 exampleCollab (gzipSync exampleCollab ''toolAtoolB#''))"
    by (auto simp: example_combined example_collab_values exampleWorld_def)
  moreover have "zipped_upload_size_bytes exampleUploadReport \<noteq>
     length (gzipSync exampleCollab ''toolAtoolB#'')"
    by (simp add: exampleUploadReport_def exampleCollab_def)
  ultimately show ?thesis
    using example_upload_standalone by simp
qed

text \<open>
  C9. With \<open>TEST_MODE\<close> set to \<open>true\<close>, \<open>uploadFiles\<close> makes no request, whatever its
  outcome. And an upload whose sentinel check passes, whose files are all valid, and for
  which combination, fingerprinting and tool-name detection succeed and the fingerprinted
  document parses to runs that each hold a \<open>results\<close> array, returns the report with the
  three numbers computed from the fingerprinted document: its length, the length of the
  base64 text of its compression, and the number of results summed over all its runs.
  The only events it adds are the schema validations.
\<close>

theorem uploadFiles_test_mode:
  assumes "process_env w ''TEST_MODE'' = Some ''true''"
  shows "(\<forall>rq. Request rq \<notin>
            set (drop (length (journal w))
                   (journal (snd (uploadFiles c sarifFiles repositoryNwo commitOid ref_arg analysisKey analysisName
                workflowRunID checkoutPath environment mode_arg w))))) \<and>
         ((mode_arg = Actions \<longrightarrow> \<not> truthy (process_env w ''CODEQL_UPLOAD_SARIF'')) \<and>
          (\<forall>f\<in>set sarifFiles.
              \<exists>d. readSarif c (files w) f = Inr d \<and> schemaErrors c d = []) \<and>
          combineSarifFiles c (files w) sarifFiles = Inr combined \<and>
          addFingerprints c combined checkoutPath = Some fingerprinted \<and>
          getToolNames c fingerprinted = Some toolNames \<and>
          JSON_parse c fingerprinted = Some doc \<and>
          runs doc = Some rs \<and>
          list_all2 (\<lambda>r res. results r = Some res) rs resultss \<longrightarrow>
          fst (uploadFiles c sarifFiles repositoryNwo commitOid ref_arg analysisKey analysisName
                workflowRunID checkoutPath environment mode_arg w) =
            Inr \<lparr>raw_upload_size_bytes = length fingerprinted,
                 zipped_upload_size_bytes = length (toBase64 c (gzipSync c fingerprinted)),
                 num_results_in_sarif = sum_list (map length resultss)\<rparr> \<and>
          journal (snd (uploadFiles c sarifFiles repositoryNwo commitOid ref_arg analysisKey analysisName
                workflowRunID checkoutPath environment mode_arg w)) =
            journal w @ map SchemaValidation sarifFiles)"
proof
  obtain res w' where run:
    "uploadFiles c sarifFiles repositoryNwo commitOid ref_arg analysisKey analysisName
                workflowRunID checkoutPath environment mode_arg w = (res, w')"
    by force
  have "\<forall>rq. Request rq \<notin> set (drop (length (journal w)) (journal w'))"
    using run
  proof (cases rule: uploadFiles_cases)
    case (early e evs)
    then show ?thesis by simp
  next
    case (reached w1 combined' fp tn n' ur)
    from reached(1) assms have "process_env w1 ''TEST_MODE'' = Some ''true''"
      by (auto simp: checkSentinel_eq split: if_splits)
    with reached(7) have "journal w' = journal w @ map SchemaValidation sarifFiles"
      by (auto simp: uploadPayload_eq)
    then show ?thesis by auto
  qed
  with run show "\<forall>rq. Request rq \<notin>
            set (drop (length (journal w))
                   (journal (snd (uploadFiles c sarifFiles repositoryNwo commitOid ref_arg analysisKey analysisName
                workflowRunID checkoutPath environment mode_arg w))))"
    by simp
next
  show "(mode_arg = Actions \<longrightarrow> \<not> truthy (process_env w ''CODEQL_UPLOAD_SARIF'')) \<and>
          (\<forall>f\<in>set sarifFiles.
              \<exists>d. readSarif c (files w) f = Inr d \<and> schemaErrors c d = []) \<and>
          combineSarifFiles c (files w) sarifFiles = Inr combined \<and>
          addFingerprints c combined checkoutPath = Some fingerprinted \<and>
          getToolNames c fingerprinted = Some toolNames \<and>
          JSON_parse c fingerprinted = Some doc \<and>
          runs doc = Some rs \<and>
          list_all2 (\<lambda>r res. results r = Some res) rs resultss \<longrightarrow>
          fst (uploadFiles c sarifFiles repositoryNwo commitOid ref_arg analysisKey analysisName
                workflowRunID checkoutPath environment mode_arg w) =
            Inr \<lparr>raw_upload_size_bytes = length fingerprinted,
                 zipped_upload_size_bytes = length (toBase64 c (gzipSync c fingerprinted)),
                 num_results_in_sarif = sum_list (map length resultss)\<rparr> \<and>
          journal (snd (uploadFiles c sarifFiles repositoryNwo commitOid ref_arg analysisKey analysisName
                workflowRunID checkoutPath environment mode_arg w)) =
            journal w @ map SchemaValidation sarifFiles"
  proof
    assume h: "(mode_arg = Actions \<longrightarrow> \<not> truthy (process_env w ''CODEQL_UPLOAD_SARIF'')) \<and>
          (\<forall>f\<in>set sarifFiles.
              \<exists>d. readSarif c (files w) f = Inr d \<and> schemaErrors c d = []) \<and>
          combineSarifFiles c (files w) sarifFiles = Inr combined \<and>
          addFingerprints c combined checkoutPath = Some fingerprinted \<and>
          getToolNames c fingerprinted = Some toolNames \<and>
          JSON_parse c fingerprinted = Some doc \<and>
          runs doc = Some rs \<and>
          list_all2 (\<lambda>r res. results r = Some res) rs resultss"
    define w1 where "w1 = snd (checkSentinel mode_arg w)"
    have s1: "checkSentinel mode_arg w = (Inr (), w1)"
      and w1: "files w1 = files w" "journal w1 = journal w"
        "process_env w1 ''TEST_MODE'' = Some ''true''"
      using assms h by (simp_all add: w1_def checkSentinel_eq)
    from h w1 have
      "\<forall>f\<in>set sarifFiles. \<exists>d. readSarif c (files w1) f = Inr d \<and> schemaErrors c d = []"
      by simp
    from validateAll_valid [OF this] w1
    have s2: "validateAll c sarifFiles w1 =
                (Inr (), w1\<lparr>journal := journal w @ map SchemaValidation sarifFiles\<rparr>)"
      by simp
    show "fst (uploadFiles c sarifFiles repositoryNwo commitOid ref_arg analysisKey analysisName
                workflowRunID checkoutPath environment mode_arg w) =
            Inr \<lparr>raw_upload_size_bytes = length fingerprinted,
                 zipped_upload_size_bytes = length (toBase64 c (gzipSync c fingerprinted)),
                 num_results_in_sarif = sum_list (map length resultss)\<rparr> \<and>
          journal (snd (uploadFiles c sarifFiles repositoryNwo commitOid ref_arg analysisKey analysisName
                workflowRunID checkoutPath environment mode_arg w)) =
            journal w @ map SchemaValidation sarifFiles"
      using s1 s2 w1 h countResultsInSarif_sum [of c fingerprinted doc rs resultss]
      by (simp add: uploadFiles_eq uploadPayload_eq)
  qed
qed

theorem uploadFiles_test_mode_witness:
  "fst (uploadFiles exampleCollab [''out/a.sarif'', ''out/b.sarif'']
      exampleNwo ''0a1b2c'' ''refs/heads/main'' None None None ''/w'' None Actions
          (exampleWorld\<lparr>process_env := [''TEST_MODE'' \<mapsto> ''true'']\<rparr>)) =
     Inr exampleUploadReport \<and>
   journal (snd (uploadFiles exampleCollab [''out/a.sarif'', ''out/b.sarif'']
      exampleNwo ''0a1b2c'' ''refs/heads/main'' None None None ''/w'' None Actions
          (exampleWorld\<lparr>process_env := [''TEST_MODE'' \<mapsto> ''true'']\<rparr>))) =
     [SchemaValidation ''out/a.sarif'', SchemaValidation ''out/b.sarif'']"
proof -
  let ?w = "exampleWorld\<lparr>process_env := [''TEST_MODE'' \<mapsto> ''true'']\<rparr>"
  have 1: "process_env ?w ''TEST_MODE'' = Some ''true''" by simp
  have 2: "Actions = Actions \<longrightarrow> \<not> truthy (process_env ?w ''CODEQL_UPLOAD_SARIF'')"
    by (simp add: truthy_def)
  have f: "files ?w = exampleFiles" by (simp add: exampleWorld_def)
  have 3: "\<forall>f\<in>set [''out/a.sarif'', ''out/b.sarif''].
             \<exists>d. readSarif exampleCollab (files ?w) f = Inr d \<and> schemaErrors exampleCollab d = []"
    unfolding f by (simp add: example_read_a example_read_b example_collab_values)
  have 4: "combineSarifFiles exampleCollab (files ?w) [''out/a.sarif'', ''out/b.sarif''] =
             Inr ''toolAtoolB''"
    unfolding f by (rule example_combined)
  have 5: "addFingerprints exampleCollab ''toolAtoolB'' ''/w'' = Some ''toolAtoolB#''"
    by (simp add: example_collab_values)
  have 6: "getToolNames exampleCollab ''toolAtoolB#'' = Some [''CodeQL'', ''Other'']"
    by (simp add: example_collab_values)
  have 7: "JSON_parse exampleCollab ''toolAtoolB#'' =
             Some \<lparr>version = JSString ''2.1.0'', runs = Some [runA, runB]\<rparr>"
    by (simp add: exampleCollab_def exampleParse_def)
  have 8: "runs \<lparr>version = JSString ''2.1.0'', runs = Some [runA, runB]\<rparr> = Some [runA, runB]"
    by simp
  have 9: "list_all2 (\<lambda>r res. results r = Some res) [runA, runB] [[''r1'', ''r2'', ''r3''], []]"
    by (simp add: runA_def runB_def)
  show ?thesis
    using uploadFiles_test_mode
        [OF 1, where c = exampleCollab and sarifFiles = "[''out/a.sarif'', ''out/b.sarif'']"
           and repositoryNwo = exampleNwo and commitOid = "''0a1b2c''"
           and ref_arg = "''refs/heads/main''" and analysisKey = None and analysisName = None
           and workflowRunID = None and checkoutPath = "''/w''" and environment = None
           and mode_arg = Actions and combined = "''toolAtoolB''"
           and fingerprinted = "''toolAtoolB#''" and toolNames = "[''CodeQL'', ''Other'']"
           and doc = "\<lparr>version = JSString ''2.1.0'', runs = Some [runA, runB]\<rparr>"
           and rs = "[runA, runB]" and resultss = "[[''r1'', ''r2'', ''r3''], []]"]
      2 3 4 5 6 7 8 9
    by (simp add: example_collab_values exampleUploadReport_def exampleWorld_def)
qed

text \<open>
  C10. When the path given to \<open>upload\<close> is a directory, the files handed to \<open>uploadFiles\<close>
  are exactly the entries whose names end with \<open>.sarif\<close>, in directory order and resolved
  against the directory, and the call fails when there is no such entry. When the path
  is a file, that file alone is handed over, whatever its name.
\<close>

theorem upload_selects_sarif_files:
  "(files w sarifPath = Some (Directory entries) \<longrightarrow>
      collectSarifFiles c (files w) sarifPath =
        (if filter (suffix ''.sarif'') entries = [] then Inl (NoSarifFilesFound sarifPath)
         else Inr (map (path_resolve c sarifPath) (filter (suffix ''.sarif'') entries)))) \<and>
   (files w sarifPath = Some (File content) \<longrightarrow>
      collectSarifFiles c (files w) sarifPath = Inr [sarifPath]) \<and>
   upload c sarifPath repositoryNwo commitOid ref_arg analysisKey analysisName
       workflowRunID checkoutPath environment mode_arg w =
     (case collectSarifFiles c (files w) sarifPath of
        Inl e \<Rightarrow> (Inl e, w)
      | Inr sarifFiles \<Rightarrow>
          uploadFiles c sarifFiles repositoryNwo commitOid ref_arg analysisKey analysisName
            workflowRunID checkoutPath environment mode_arg w)"
proof -
  have "(\<lambda>f. endsWith f ''.sarif'') = suffix ''.sarif''"
    by (rule ext) (rule endsWith_suffix)
  then show ?thesis
    by (auto simp: collectSarifFiles_def upload_def andThen_def pure_def Let_def
        split: sum.splits)
qed


theorem upload_selects_sarif_files_witness:
  "collectSarifFiles exampleCollab (files exampleWorld) ''out'' =
     Inr [''out/a.sarif'', ''out/b.sarif''] \<and>
   collectSarifFiles exampleCollab (files exampleWorld) ''null.json'' = Inr [''null.json'']"
proof -
  have d: "files exampleWorld ''out'' = Some (Directory [''a.sarif'', ''notes.txt'', ''b.sarif''])"
    and f: "files exampleWorld ''null.json'' = Some (File ''N'')"
    by (simp_all add: exampleWorld_def exampleFiles_def)
  have s: "filter (suffix ''.sarif'') [''a.sarif'', ''notes.txt'', ''b.sarif''] =
             [''a.sarif'', ''b.sarif'']"
    by (simp add: suffix_to_prefix)
  show ?thesis
    using upload_selects_sarif_files
        [where w = exampleWorld and c = exampleCollab and sarifPath = "''out''"
           and entries = "[''a.sarif'', ''notes.txt'', ''b.sarif'']"]
      upload_selects_sarif_files
        [where w = exampleWorld and c = exampleCollab and sarifPath = "''null.json''"
           and content = "''N''"]
      d f s
    by (simp add: exampleCollab_def)
qed

end
